theory Spec2Isabelle
  imports Main "HOL-Library.Sublist"
begin

section \<open>The process shim (src/vs/base/common/process.ts)\<close>

text \<open>
  The interface \<open>IProcess\<close> of the shim. The field \<open>nextTick\<close> schedules a callback and
  has no value that the properties below speak about; it is left out of the record.
  An \<open>env\<close> object is a finite map from property names to values.
\<close>

record IProcess =
  platform :: string
  env :: "string \<rightharpoonup> string"
  cwd :: "unit \<Rightarrow> string"

text \<open>
  \<open>safeProcess\<close>: the global \<open>process\<close> object when it is defined (\<open>Some p\<close>), the
  fallback object literal otherwise (\<open>typeof process === 'undefined'\<close>, here \<open>None\<close>).
  \<open>isWindows\<close> and \<open>isMacintosh\<close> are the flags imported from the platform module.
\<close>

definition safeProcess :: "bool \<Rightarrow> bool \<Rightarrow> IProcess option \<Rightarrow> IProcess" where
  "safeProcess isWindows isMacintosh process =
     (case process of
        None \<Rightarrow> \<lparr> platform = (if isWindows then ''win32'' else if isMacintosh then ''darwin'' else ''linux''),
                  env = Map.empty,
                  cwd = (\<lambda>_. ''/'') \<rparr>
      | Some p \<Rightarrow> p)"

text \<open>The module's exports \<open>cwd\<close>, \<open>env\<close> and \<open>platform\<close>.\<close>

definition export_cwd :: "bool \<Rightarrow> bool \<Rightarrow> IProcess option \<Rightarrow> unit \<Rightarrow> string" where
  "export_cwd isWindows isMacintosh process = cwd (safeProcess isWindows isMacintosh process)"

definition export_env :: "bool \<Rightarrow> bool \<Rightarrow> IProcess option \<Rightarrow> (string \<rightharpoonup> string)" where
  "export_env isWindows isMacintosh process = env (safeProcess isWindows isMacintosh process)"

definition export_platform :: "bool \<Rightarrow> bool \<Rightarrow> IProcess option \<Rightarrow> string" where
  "export_platform isWindows isMacintosh process = platform (safeProcess isWindows isMacintosh process)"

section \<open>The worker factory (DefaultWorkerFactory)\<close>

text \<open>
  The error passed to a worker's error callback has the type \<open>any\<close>, and the factory tests
  it with a plain \<open>if\<close>: the values are modelled with JavaScript's truthiness.
\<close>

datatype jsval = JUndefined | JNull | JBool bool | JNum int | JStr string | JObj nat

fun truthy :: "jsval \<Rightarrow> bool" where
  "truthy JUndefined = False"
| "truthy JNull = False"
| "truthy (JBool b) = b"
| "truthy (JNum n) = (n \<noteq> 0)"
| "truthy (JStr s) = (s \<noteq> [])"
| "truthy (JObj _) = True"

text \<open>Decimal digits of a number, as \<open>'anonymous' + workerId\<close> prints it.\<close>

definition decimalDigit :: "nat \<Rightarrow> char" where
  "decimalDigit d = char_of (d + 48)"

fun numberToString :: "nat \<Rightarrow> string" where
  "numberToString n =
     (if 10 \<le> n then numberToString (n div 10) @ [decimalDigit (n mod 10)]
      else [decimalDigit n])"

declare numberToString.simps [simp del]

text \<open>
  A \<open>WebWorker\<close> as the factory constructs it: its id, the label handed to \<open>getWorker\<close>,
  and the module id posted to it as its first message.
\<close>

record WebWorker =
  workerId :: nat
  workerLabel :: string
  workerModuleId :: string

record DefaultWorkerFactory =
  label :: "string option"
  webWorkerFailedBeforeError :: jsval

text \<open>The constructor: \<open>_webWorkerFailedBeforeError = false\<close>.\<close>

definition newDefaultWorkerFactory :: "string option \<Rightarrow> DefaultWorkerFactory" where
  "newDefaultWorkerFactory l = \<lparr> label = l, webWorkerFailedBeforeError = JBool False \<rparr>"

text \<open>
  \<open>create\<close>, given the current value of the static counter \<open>LAST_WORKER_ID\<close>; it returns
  the thrown value (\<open>Inl\<close>) or the new worker (\<open>Inr\<close>), and the counter's new value.
  The counter is incremented first, also when the call throws; it is a natural number
  here (a JavaScript number stops growing at \<open>2^53\<close>, after as many calls).
  \<open>getWorker\<close> is the host's
  worker loader, called by the \<open>WebWorker\<close> constructor with the script name and the
  label: \<open>Some e\<close> when it throws \<open>e\<close>, \<open>None\<close> when it yields a worker.
  \<open>this._label || 'anonymous' + workerId\<close> takes the label unless it is undefined or empty.
\<close>

definition create ::
  "(string \<Rightarrow> string \<Rightarrow> jsval option) \<Rightarrow> nat \<Rightarrow> DefaultWorkerFactory \<Rightarrow> string
     \<Rightarrow> (jsval + WebWorker) \<times> nat" where
  "create getWorker LAST_WORKER_ID this moduleId =
     (let wid = LAST_WORKER_ID + 1 in
      if truthy (webWorkerFailedBeforeError this)
      then (Inl (webWorkerFailedBeforeError this), wid)
      else
        (let lbl = (case label this of
                      None \<Rightarrow> ''anonymous'' @ numberToString wid
                    | Some l \<Rightarrow> if l \<noteq> [] then l else ''anonymous'' @ numberToString wid)
         in case getWorker ''workerMain.js'' lbl of
              Some e \<Rightarrow> (Inl e, wid)
            | None \<Rightarrow> (Inr \<lparr> workerId = wid, workerLabel = lbl, workerModuleId = moduleId \<rparr>, wid)))"

text \<open>
  The error callback that \<open>create\<close> hands to the worker: it records the error in the
  factory that created the worker (and then logs and calls the caller's callback).
\<close>

definition workerErrorCallback :: "jsval \<Rightarrow> DefaultWorkerFactory \<Rightarrow> DefaultWorkerFactory" where
  "workerErrorCallback err this = this\<lparr> webWorkerFailedBeforeError := err \<rparr>"

text \<open>
  A run of the program: several factories (numbered), one static counter, and the workers
  constructed so far, oldest first, each with the number of its factory. An operation is a
  call of \<open>create\<close> on a factory, or the firing of the error callback of a worker that a
  factory created.
\<close>

datatype worker_op = Create nat string | ErrorFired nat jsval

record worker_sys =
  lastWorkerId :: nat
  factories :: "nat \<Rightarrow> DefaultWorkerFactory"
  workers :: "(nat \<times> WebWorker) list"

definition worker_sys0 :: "(nat \<Rightarrow> string option) \<Rightarrow> worker_sys" where
  "worker_sys0 labels =
     \<lparr> lastWorkerId = 0, factories = (\<lambda>i. newDefaultWorkerFactory (labels i)), workers = [] \<rparr>"

fun worker_step :: "(string \<Rightarrow> string \<Rightarrow> jsval option) \<Rightarrow> worker_op \<Rightarrow> worker_sys \<Rightarrow> worker_sys" where
  "worker_step g (Create i m) s =
     (case create g (lastWorkerId s) (factories s i) m of
        (Inl e, n) \<Rightarrow> s\<lparr> lastWorkerId := n \<rparr>
      | (Inr w, n) \<Rightarrow> s\<lparr> lastWorkerId := n, workers := workers s @ [(i, w)] \<rparr>)"
| "worker_step g (ErrorFired i err) s =
     s\<lparr> factories := (factories s)(i := workerErrorCallback err (factories s i)) \<rparr>"

fun worker_run :: "(string \<Rightarrow> string \<Rightarrow> jsval option) \<Rightarrow> worker_op list \<Rightarrow> worker_sys \<Rightarrow> worker_sys" where
  "worker_run g [] s = s"
| "worker_run g (x # xs) s = worker_run g xs (worker_step g x s)"

text \<open>The errors that a list of operations fires on factory \<open>i\<close>.\<close>

fun firedOn :: "nat \<Rightarrow> worker_op list \<Rightarrow> jsval list" where
  "firedOn i [] = []"
| "firedOn i (Create j m # xs) = firedOn i xs"
| "firedOn i (ErrorFired j e # xs) = (if j = i then e # firedOn i xs else firedOn i xs)"

text \<open>The calls of \<open>create\<close> among the operations.\<close>

fun isCreate :: "worker_op \<Rightarrow> bool" where
  "isCreate (Create i m) = True"
| "isCreate (ErrorFired i e) = False"

text \<open>
  The ids of the workers constructed so far never exceed the static counter, and grow
  strictly in the order of construction.
\<close>

definition ids_inv :: "worker_sys \<Rightarrow> bool" where
  "ids_inv s \<longleftrightarrow>
     list_all (\<lambda>p. workerId (snd p) \<le> lastWorkerId s) (workers s)
     \<and> sorted_wrt (<) (map (workerId \<circ> snd) (workers s))"

section \<open>The Python runtime installer (JupyterServerInstallation)\<close>

subsection \<open>Constants, messages and the host's answers\<close>

text \<open>
  The module \<open>constants\<close> is imported by the installer; its values are parameters of the
  model.
\<close>

record constants =
  pythonBundleVersion :: string
  pythonVersion :: string
  winPlatform :: string
  notebookConfigKey :: string
  pythonPathConfigKey :: string
  sparkMagicVersion :: string

text \<open>The localized messages, with their default (English) texts.\<close>

definition msgInstallPkgProgress :: string where
  "msgInstallPkgProgress = ''Notebook dependencies installation is in progress''"

definition msgPythonDownloadComplete :: string where
  "msgPythonDownloadComplete = ''Python download is complete''"

definition msgPythonDownloadError :: string where
  "msgPythonDownloadError = ''Error while downloading python setup''"

definition msgPythonDirectoryError :: string where
  "msgPythonDirectoryError = ''Error while creating python installation directory''"

definition msgPythonUnpackError :: string where
  "msgPythonUnpackError = ''Error while unpacking python bundle''"

definition msgTaskName :: string where
  "msgTaskName = ''Installing Notebook dependencies''"

definition msgInstallPkgStart :: string where
  "msgInstallPkgStart = ''Installing Notebook dependencies, see Tasks view for more information''"

definition msgInstallPkgFinish :: string where
  "msgInstallPkgFinish = ''Notebook dependencies installation is complete''"

definition msgPythonRunningError :: string where
  "msgPythonRunningError = ''Cannot overwrite existing Python installation while python is running.''"

definition msgPendingInstallError :: string where
  "msgPendingInstallError = ''Another Python installation is currently in progress.''"

definition msgDependenciesInstallationFailed :: "string \<Rightarrow> string" where
  "msgDependenciesInstallationFailed errorMessage =
     ''Installing Notebook dependencies failed with error: '' @ errorMessage"

definition msgDownloadPython :: "string \<Rightarrow> string \<Rightarrow> string" where
  "msgDownloadPython platformId pythonDownloadUrl =
     ''Downloading local python for platform: '' @ platformId @ '' to '' @ pythonDownloadUrl"

datatype Platform = Mac | Linux | Windows | Others

datatype TaskStatus = InProgress | Succeeded | Failed

text \<open>
  What the request and the write stream it is piped into emit during one download:
  the request's \<open>error\<close>, its \<open>response\<close> (status code and status message), a \<open>data\<close>
  chunk (its length), the write stream's \<open>close\<close> and the write stream's \<open>error\<close>.
  The \<open>data\<close> callback counts the bytes and writes progress lines to the output
  channel: it changes nothing that is recorded here.
\<close>

datatype download_event =
    RequestError string
  | Response nat string
  | Data nat
  | Close
  | StreamError string

text \<open>
  The host and the operating system, as the installer sees them during one call. An error
  is its message or code; \<open>None\<close> is success.
  \<^item> \<open>processPlatform\<close> is \<open>process.platform\<close>; \<open>pathJoin\<close> and \<open>pathDelimiter\<close> are
    \<open>path.join\<close> and \<open>path.delimiter\<close>;
  \<^item> \<open>osPlatform\<close>, \<open>osPlatformId\<close>, \<open>userHome\<close>, \<open>getErrorMessage\<close> and \<open>execError\<close>
    (\<open>executeStreamedCommand\<close>) are the functions of the module \<open>utils\<close>;
  \<^item> \<open>existsSync\<close> is the file system when the call starts; \<open>openError\<close> is the error code
    of \<open>fs.open(path, 'r+')\<close>; \<open>closeError\<close>, \<open>mkdirsError\<close>, \<open>removeSyncError\<close>,
    \<open>unlinkError\<close> are the results of the file operations and \<open>decompressError\<close> that of
    \<open>decompress\<close>;
  \<^item> \<open>downloadEvents\<close> is what the download emits, in order;
  \<^item> \<open>configUpdateError\<close> is the result of the configuration store's \<open>update\<close>.
\<close>

record world =
  processPlatform :: string
  pathJoin :: "string list \<Rightarrow> string"
  pathDelimiter :: string
  osPlatform :: Platform
  osPlatformId :: string
  userHome :: string
  getErrorMessage :: "string option \<Rightarrow> string"
  existsSync :: "string \<Rightarrow> bool"
  openError :: "string \<Rightarrow> string option"
  closeError :: "string option"
  mkdirsError :: "string option"
  downloadEvents :: "download_event list"
  removeSyncError :: "string option"
  decompressError :: "string option"
  unlinkError :: "string option"
  execError :: "string \<Rightarrow> string option"
  configUpdateError :: "string option"

text \<open>
  What the installer does to the outside, in the order in which it does it. The lines
  written to the output channel are not recorded. The host runs the operation of a
  background task when the task is started.
\<close>

datatype effect =
    UpdateStatus TaskStatus string
  | ShowInformationMessage string
  | ShowErrorMessage string
  | StartBackgroundOperation string
  | Mkdirs string
  | RequestGet string string
  | RemoveSync string
  | Decompress string string
  | Unlink string
  | ExecCommand string
  | ConfigUpdate string string

datatype promise = Pending | Resolved | Rejected string

subsection \<open>The installer's state\<close>

record JupyterServerInstallation =
  pythonBinPath :: string
  pythonEnvVarPath :: string
  execOptions :: "string \<rightharpoonup> string"
  pythonInstallationPath :: string
  pythonExecutable :: string
  pythonPackageDir :: string
  forceInstall :: bool
  installInProgress :: bool

text \<open>
  The installer together with what it shares with the process: the ambient environment
  \<open>process.env\<close>, the notebook section of the configuration store, and the effects so
  far. The last three fields belong to one call of \<open>startInstallProcess\<close>: the promise
  of \<open>installPythonPackage\<close>, the deferred \<open>installReady\<close>, and whether the code that
  awaits \<open>installPythonPackage\<close> has been resumed.
\<close>

record sys =
  installer :: JupyterServerInstallation
  processEnv :: "string \<rightharpoonup> string"
  notebookConfig :: "string \<rightharpoonup> string"
  trace :: "effect list"
  pkgPromise :: promise
  installReady :: promise
  resumed :: bool

definition emit :: "effect \<Rightarrow> sys \<Rightarrow> sys" where
  "emit e s = s\<lparr> trace := trace s @ [e] \<rparr>"

text \<open>A promise settles once: a later \<open>resolve\<close> or \<open>reject\<close> does nothing.\<close>

definition settle :: "promise \<Rightarrow> promise \<Rightarrow> promise" where
  "settle outcome p = (if p = Pending then outcome else p)"

definition reject :: "string \<Rightarrow> sys \<Rightarrow> sys" where
  "reject err s = s\<lparr> pkgPromise := settle (Rejected err) (pkgPromise s) \<rparr>"

definition resolve :: "sys \<Rightarrow> sys" where
  "resolve s = s\<lparr> pkgPromise := settle Resolved (pkgPromise s) \<rparr>"

subsection \<open>Derived paths\<close>

definition getPythonExePath :: "constants \<Rightarrow> world \<Rightarrow> string \<Rightarrow> string" where
  "getPythonExePath C W pythonInstallPath =
     pathJoin W [pythonInstallPath, pythonBundleVersion C,
                 if processPlatform W = winPlatform C then ''python.exe'' else ''bin/python3'']"

text \<open>A string or \<open>undefined\<close>, as string concatenation prints it.\<close>

definition jsString :: "string option \<Rightarrow> string" where
  "jsString v = (case v of None \<Rightarrow> ''undefined'' | Some x \<Rightarrow> x)"

definition configurePackagePaths :: "constants \<Rightarrow> world \<Rightarrow> sys \<Rightarrow> sys" where
  "configurePackagePaths C W s =
     (let this = installer s;
          pythonSourcePath = pathJoin W [pythonInstallationPath this, pythonBundleVersion C];
          packageDir = pathJoin W [pythonSourcePath, ''offlinePackages''];
          pythonBinPathSuffix = (if processPlatform W = winPlatform C then [] else ''bin'');
          executable = getPythonExePath C W (pythonInstallationPath this);
          binPath = pathJoin W [pythonSourcePath, pythonBinPathSuffix];
          inherited = jsString (processEnv s ''PATH'');
          delimiter = pathDelimiter W;
          withScripts =
            (if processPlatform W = winPlatform C
             then pathJoin W [pythonSourcePath, ''Scripts''] @ delimiter @ inherited
             else inherited);
          envVarPath = binPath @ delimiter @ withScripts;
          ambient = (processEnv s)(''PYTHONPATH'' := None, ''PYTHONSTARTUP'' := None,
                                   ''PYTHONHOME'' := None);
          childEnv = (ambient(''Path'' := None))(''PATH'' \<mapsto> envVarPath)
      in s\<lparr> installer := this\<lparr> pythonPackageDir := packageDir,
                                 pythonExecutable := executable,
                                 pythonBinPath := binPath,
                                 pythonEnvVarPath := envVarPath,
                                 execOptions := childEnv \<rparr>,
            processEnv := ambient \<rparr>)"

subsection \<open>The static functions on the configuration store\<close>

text \<open>
  An \<open>ApiWrapper\<close> gives the configuration section of a key, or nothing; a section maps
  setting names to values. The wrapper itself may be undefined.
\<close>

record ApiWrapper =
  getConfiguration :: "string \<Rightarrow> (string \<rightharpoonup> string) option"

definition getPythonPathSetting :: "constants \<Rightarrow> world \<Rightarrow> ApiWrapper option \<Rightarrow> string option" where
  "getPythonPathSetting C W apiWrapper =
     (case apiWrapper of
        None \<Rightarrow> None
      | Some api \<Rightarrow>
          (case getConfiguration api (notebookConfigKey C) of
             None \<Rightarrow> None
           | Some section \<Rightarrow>
               (case section (pythonPathConfigKey C) of
                  None \<Rightarrow> None
                | Some configPythonPath \<Rightarrow>
                    if configPythonPath \<noteq> [] \<and> existsSync W configPythonPath
                    then Some configPythonPath else None)))"

definition isPythonInstalled :: "constants \<Rightarrow> world \<Rightarrow> ApiWrapper option \<Rightarrow> bool" where
  "isPythonInstalled C W apiWrapper =
     (case getPythonPathSetting C W apiWrapper of
        None \<Rightarrow> False
      | Some pathSetting \<Rightarrow>
          if pathSetting = [] then False
          else existsSync W (getPythonExePath C W pathSetting))"

definition DefaultPythonLocation :: "world \<Rightarrow> string" where
  "DefaultPythonLocation W = pathJoin W [userHome W, ''azuredatastudio-python'']"

definition getPythonInstallPath :: "constants \<Rightarrow> world \<Rightarrow> ApiWrapper option \<Rightarrow> string" where
  "getPythonInstallPath C W apiWrapper =
     (case getPythonPathSetting C W apiWrapper of
        None \<Rightarrow> DefaultPythonLocation W
      | Some userPath \<Rightarrow> if userPath \<noteq> [] then userPath else DefaultPythonLocation W)"

definition getPythonBinPath :: "constants \<Rightarrow> world \<Rightarrow> ApiWrapper option \<Rightarrow> string" where
  "getPythonBinPath C W apiWrapper =
     pathJoin W [getPythonInstallPath C W apiWrapper, pythonBundleVersion C,
                 if processPlatform W = winPlatform C then [] else ''bin'']"

text \<open>
  The constructor, given the ambient environment and the notebook section of the store.
  The derived fields have no value before \<open>configurePackagePaths\<close> sets them.
\<close>

definition newJupyterServerInstallation ::
  "constants \<Rightarrow> world \<Rightarrow> ApiWrapper option \<Rightarrow> string option
     \<Rightarrow> (string \<rightharpoonup> string) \<Rightarrow> (string \<rightharpoonup> string) \<Rightarrow> sys" where
  "newJupyterServerInstallation C W apiWrapper pythonInstallationPath' ambient store =
     configurePackagePaths C W
       \<lparr> installer =
           \<lparr> pythonBinPath = [], pythonEnvVarPath = [], execOptions = Map.empty,
             pythonInstallationPath =
               (case pythonInstallationPath' of
                  None \<Rightarrow> getPythonInstallPath C W apiWrapper
                | Some p \<Rightarrow> if p \<noteq> [] then p else getPythonInstallPath C W apiWrapper),
             pythonExecutable = [], pythonPackageDir = [],
             forceInstall = False, installInProgress = False \<rparr>,
         processEnv = ambient, notebookConfig = store, trace = [],
         pkgPromise = Pending, installReady = Pending, resumed = False \<rparr>"

subsection \<open>The install pipeline\<close>

text \<open>
  \<open>isPythonRunning\<close>: the executable is opened for reading and writing. When that
  succeeds the handle is closed, and the callback of \<open>close\<close> shows a message, whatever
  the result of closing is. The callback runs after the check has returned and the caller
  has gone on; the message is recorded here with the check, before the caller's effects.
\<close>

definition isPythonRunning :: "constants \<Rightarrow> world \<Rightarrow> string \<Rightarrow> sys \<Rightarrow> bool \<times> sys" where
  "isPythonRunning C W pythonInstallPath s =
     (case openError W (getPythonExePath C W pythonInstallPath) of
        None \<Rightarrow> (False, emit (ShowErrorMessage (getErrorMessage W (closeError W))) s)
      | Some code \<Rightarrow> (code = ''EBUSY'' \<or> code = ''EPERM'', s))"

definition setInstallInProgress :: "bool \<Rightarrow> sys \<Rightarrow> sys" where
  "setInstallInProgress b s = s\<lparr> installer := (installer s)\<lparr> installInProgress := b \<rparr> \<rparr>"

text \<open>
  \<open>updateConfig\<close>: the installation path is written to the store; the write may fail,
  and then the awaiting code throws.
\<close>

definition updateConfig :: "constants \<Rightarrow> world \<Rightarrow> sys \<Rightarrow> string option \<times> sys" where
  "updateConfig C W s =
     (let path = pythonInstallationPath (installer s);
          s1 = emit (ConfigUpdate (pythonPathConfigKey C) path) s
      in case configUpdateError W of
           Some e \<Rightarrow> (Some e, s1)
         | None \<Rightarrow> (None, s1\<lparr> notebookConfig := (notebookConfig s1)(pythonPathConfigKey C \<mapsto> path) \<rparr>))"

text \<open>The \<open>catch\<close> handler of the background operation.\<close>

definition catchHandler :: "constants \<Rightarrow> world \<Rightarrow> string \<Rightarrow> sys \<Rightarrow> sys" where
  "catchHandler C W err s =
     (let errorMsg = msgDependenciesInstallationFailed (getErrorMessage W (Some err));
          s1 = emit (UpdateStatus Failed errorMsg) s;
          s2 = emit (ShowErrorMessage errorMsg) s1;
          s3 = s2\<lparr> installReady := settle (Rejected errorMsg) (installReady s2) \<rparr>
      in setInstallInProgress False s3)"

text \<open>
  The \<open>then\<close> handler of the background operation; an exception in it goes to the
  \<open>catch\<close> handler chained after it.
\<close>

definition thenHandler :: "constants \<Rightarrow> world \<Rightarrow> sys \<Rightarrow> sys" where
  "thenHandler C W s =
     (case updateConfig C W s of
        (Some e, s1) \<Rightarrow> catchHandler C W e s1
      | (None, s1) \<Rightarrow>
          setInstallInProgress False (s1\<lparr> installReady := settle Resolved (installReady s1) \<rparr>))"

definition dq :: string where
  "dq = [CHR 0x22]"

definition installJupyterProsePackage :: "constants \<Rightarrow> world \<Rightarrow> sys \<Rightarrow> string option \<times> sys" where
  "installJupyterProsePackage C W s =
     (if processPlatform W = winPlatform C then
        (let this = installer s;
             requirements = pathJoin W [pythonPackageDir this, ''requirements.txt''];
             installJupyterCommand =
               dq @ pythonExecutable this @ dq @ '' -m pip install --no-index -r '' @ dq @ requirements @ dq
                 @ '' --find-links '' @ dq @ pythonPackageDir this @ dq @ '' --no-warn-script-location''
         in (execError W installJupyterCommand, emit (ExecCommand installJupyterCommand) s))
      else (None, s))"

definition installSparkMagic :: "constants \<Rightarrow> world \<Rightarrow> sys \<Rightarrow> string option \<times> sys" where
  "installSparkMagic C W s =
     (if processPlatform W = winPlatform C then
        (let this = installer s;
             sparkWheel = pathJoin W [pythonPackageDir this,
                            ''sparkmagic-'' @ sparkMagicVersion C @ ''-py3-none-any.whl''];
             installSparkMagicCommand =
               dq @ pythonExecutable this @ dq @ '' -m pip install --no-index '' @ dq @ sparkWheel @ dq
                 @ '' --find-links '' @ dq @ pythonPackageDir this @ dq @ '' --no-warn-script-location''
         in (execError W installSparkMagicCommand, emit (ExecCommand installSparkMagicCommand) s))
      else (None, s))"

text \<open>
  The rest of \<open>installDependencies\<close> after \<open>await this.installPythonPackage(...)\<close> has
  returned, followed by the \<open>then\<close> handler; an exception goes to the \<open>catch\<close> handler.
\<close>

definition afterInstallPythonPackage :: "constants \<Rightarrow> world \<Rightarrow> sys \<Rightarrow> sys" where
  "afterInstallPythonPackage C W s =
     (let s1 = emit (UpdateStatus InProgress msgPythonDownloadComplete) s
      in case installJupyterProsePackage C W s1 of
           (Some e, s2) \<Rightarrow> catchHandler C W e s2
         | (None, s2) \<Rightarrow>
             (case installSparkMagic C W s2 of
                (Some e, s3) \<Rightarrow> catchHandler C W e s3
              | (None, s3) \<Rightarrow>
                  thenHandler C W
                    (emit (ShowInformationMessage msgInstallPkgFinish)
                       (emit (UpdateStatus Succeeded msgInstallPkgFinish) s3))))"

text \<open>
  The code that awaits the promise of \<open>installPythonPackage\<close> is resumed once, when the
  callback in which the promise was settled has returned and before the next callback
  runs. Here it then runs to its end.
\<close>

definition resume :: "constants \<Rightarrow> world \<Rightarrow> sys \<Rightarrow> sys" where
  "resume C W s =
     (if resumed s then s
      else case pkgPromise s of
             Pending \<Rightarrow> s
           | Resolved \<Rightarrow> afterInstallPythonPackage C W (s\<lparr> resumed := True \<rparr>)
           | Rejected e \<Rightarrow> catchHandler C W e (s\<lparr> resumed := True \<rparr>))"

text \<open>
  The name of the downloaded archive: the four placeholders of
  \<open>python-#pythonversion-#platform-#bundleversion.#extension\<close> replaced.
\<close>

definition packageName :: "constants \<Rightarrow> world \<Rightarrow> string" where
  "packageName C W =
     ''python-'' @ pythonVersion C @ ''-'' @ osPlatformId W @ ''-'' @ pythonBundleVersion C @ ''.''
       @ (if processPlatform W = winPlatform C then ''zip'' else ''tar.gz'')"

definition pythonDownloadUrl :: "world \<Rightarrow> string" where
  "pythonDownloadUrl W =
     (case osPlatform W of
        Windows \<Rightarrow> ''https://go.microsoft.com/fwlink/?linkid=2074021''
      | Mac \<Rightarrow> ''https://go.microsoft.com/fwlink/?linkid=2065976''
      | _ \<Rightarrow> ''https://go.microsoft.com/fwlink/?linkid=2065975'')"

definition pythonPackagePathLocal :: "constants \<Rightarrow> world \<Rightarrow> sys \<Rightarrow> string" where
  "pythonPackagePathLocal C W s = pythonInstallationPath (installer s) @ ''/'' @ packageName C W"

text \<open>
  The \<open>close\<close> callback of the write stream: a stale copy is removed, \<open>decompress\<close> is
  called; when it has succeeded \<open>unlink\<close> is called and then \<open>resolve\<close>, without waiting
  for the callback of \<open>unlink\<close>. No branch that rejects returns.
\<close>

definition onClose :: "constants \<Rightarrow> world \<Rightarrow> sys \<Rightarrow> sys" where
  "onClose C W s =
     (let pythonSourcePath = pathJoin W [pythonInstallationPath (installer s), pythonBundleVersion C];
          archive = pythonPackagePathLocal C W s;
          s1 = (if existsSync W pythonSourcePath then
                  (let r = emit (RemoveSync pythonSourcePath) s
                   in case removeSyncError W of
                        Some err \<Rightarrow> reject err (emit (UpdateStatus InProgress msgPythonUnpackError) r)
                      | None \<Rightarrow> r)
                else s);
          s2 = resume C W (emit (Decompress archive (pythonInstallationPath (installer s1))) s1)
      in case decompressError W of
           Some err \<Rightarrow> resume C W (reject err (emit (UpdateStatus InProgress msgPythonUnpackError) s2))
         | None \<Rightarrow>
             (let s3 = resume C W (resolve (emit (Unlink archive) s2))
              in case unlinkError W of
                   Some err \<Rightarrow> resume C W (reject err (emit (UpdateStatus InProgress msgPythonUnpackError) s3))
                 | None \<Rightarrow> s3))"

fun onEvent :: "constants \<Rightarrow> world \<Rightarrow> download_event \<Rightarrow> sys \<Rightarrow> sys" where
  "onEvent C W (RequestError downloadError) s =
     resume C W (reject downloadError (emit (UpdateStatus InProgress msgPythonDownloadError) s))"
| "onEvent C W (Response statusCode statusMessage) s =
     resume C W
       (if statusCode \<noteq> 200
        then reject statusMessage (emit (UpdateStatus InProgress msgPythonDownloadError) s)
        else s)"
| "onEvent C W (Data n) s = s"
| "onEvent C W Close s = onClose C W s"
| "onEvent C W (StreamError downloadError) s =
     resume C W (reject downloadError (emit (UpdateStatus InProgress msgPythonDownloadError) s))"

fun onEvents :: "constants \<Rightarrow> world \<Rightarrow> download_event list \<Rightarrow> sys \<Rightarrow> sys" where
  "onEvents C W [] s = s"
| "onEvents C W (e # es) s = onEvents C W es (onEvent C W e s)"

text \<open>
  \<open>installPythonPackage\<close>: the directory is made (an error rejects, and the download
  starts all the same), the download is requested and piped into the archive file, and the
  callbacks run as the events come.
\<close>

definition installPythonPackage :: "constants \<Rightarrow> world \<Rightarrow> sys \<Rightarrow> sys" where
  "installPythonPackage C W s =
     (let s1 = emit (UpdateStatus InProgress (msgDownloadPython (osPlatformId W) (pythonDownloadUrl W))) s;
          s2 = emit (Mkdirs (pythonInstallationPath (installer s1))) s1;
          s3 = (case mkdirsError W of
                  Some err \<Rightarrow> reject err (emit (UpdateStatus InProgress msgPythonDirectoryError) s2)
                | None \<Rightarrow> s2);
          s4 = emit (RequestGet (pythonDownloadUrl W) (pythonPackagePathLocal C W s3)) s3
      in onEvents C W (downloadEvents W) (resume C W s4))"

text \<open>
  \<open>installDependencies\<close> with the handlers chained to it by the background operation.
\<close>

definition installDependencies :: "constants \<Rightarrow> world \<Rightarrow> sys \<Rightarrow> sys" where
  "installDependencies C W s =
     (if \<not> existsSync W (pythonExecutable (installer s)) \<or> forceInstall (installer s) then
        (let s1 = emit (ShowInformationMessage msgInstallPkgStart) s;
             s2 = emit (UpdateStatus InProgress msgInstallPkgProgress) s1
         in installPythonPackage C W s2)
      else thenHandler C W s)"

text \<open>
  \<open>startInstallProcess\<close> returns the state of the promise it hands to its caller
  (\<open>Pending\<close> when the download never settles it) and the state it leaves.
  \<open>targetPath\<close> is \<open>installationPath ? installationPath : this._pythonInstallationPath\<close>;
  \<open>prepareInstall\<close> and \<open>proceedWithInstall\<close> are the body of the function after its two
  guards: the assignments up to \<open>configurePackagePaths\<close> and the fresh \<open>Deferred\<close>, then
  the branch on the executable.
\<close>

definition targetPath :: "string option \<Rightarrow> sys \<Rightarrow> string" where
  "targetPath installationPath s =
     (case installationPath of
        None \<Rightarrow> pythonInstallationPath (installer s)
      | Some p \<Rightarrow> if p \<noteq> [] then p else pythonInstallationPath (installer s))"

definition prepareInstall ::
  "constants \<Rightarrow> world \<Rightarrow> bool \<Rightarrow> string option \<Rightarrow> sys \<Rightarrow> sys" where
  "prepareInstall C W forceInstall' installationPath s0 =
     (let s1 = setInstallInProgress True s0;
          s2 = s1\<lparr> installer := (installer s1)\<lparr> forceInstall := forceInstall' \<rparr> \<rparr>;
          s3 = (case installationPath of
                  None \<Rightarrow> s2
                | Some p \<Rightarrow>
                    if p \<noteq> []
                    then s2\<lparr> installer := (installer s2)\<lparr> pythonInstallationPath := p \<rparr> \<rparr>
                    else s2);
          s4 = configurePackagePaths C W s3
      in s4\<lparr> pkgPromise := Pending, installReady := Pending, resumed := False \<rparr>)"

definition proceedWithInstall ::
  "constants \<Rightarrow> world \<Rightarrow> bool \<Rightarrow> string option \<Rightarrow> sys \<Rightarrow> promise \<times> sys" where
  "proceedWithInstall C W forceInstall' installationPath s0 =
     (let s5 = prepareInstall C W forceInstall' installationPath s0
      in if \<not> existsSync W (pythonExecutable (installer s5)) \<or> forceInstall (installer s5) then
           (let s6 = installDependencies C W (emit (StartBackgroundOperation msgTaskName) s5)
            in (installReady s6, s6))
         else
           (case updateConfig C W s5 of
              (Some e, s6) \<Rightarrow> (Rejected e, s6)
            | (None, s6) \<Rightarrow>
                (let s7 = s6\<lparr> installReady := settle Resolved (installReady s6) \<rparr>
                 in (installReady s7, s7))))"

definition startInstallProcess ::
  "constants \<Rightarrow> world \<Rightarrow> bool \<Rightarrow> string option \<Rightarrow> sys \<Rightarrow> promise \<times> sys" where
  "startInstallProcess C W forceInstall' installationPath s =
     (case isPythonRunning C W (targetPath installationPath s) s of
        (isRunning, s0) \<Rightarrow>
          if isRunning then (Rejected msgPythonRunningError, s0)
          else if installInProgress (installer s0) then (Rejected msgPendingInstallError, s0)
          else proceedWithInstall C W forceInstall' installationPath s0)"

text \<open>What the callback of \<open>fs.close\<close> in \<open>isPythonRunning\<close> shows, if the file was opened.\<close>

definition closeNotice :: "constants \<Rightarrow> world \<Rightarrow> string \<Rightarrow> effect list" where
  "closeNotice C W path =
     (case openError W (getPythonExePath C W path) of
        None \<Rightarrow> [ShowErrorMessage (getErrorMessage W (closeError W))]
      | Some code \<Rightarrow> [])"

subsection \<open>Concrete hosts\<close>

text \<open>
  \<open>path.join\<close> belongs to the platform, not to the installer. For examples on concrete
  paths, this is a model of it: the non-empty arguments are joined with the separator and
  the result is normalized (empty and \<open>.\<close> segments dropped, \<open>..\<close> resolved, a leading
  and a trailing separator kept). The Windows variant accepts both separators and keeps
  a drive letter; network (UNC) paths are outside it.
\<close>

fun splitPath :: "(char \<Rightarrow> bool) \<Rightarrow> string \<Rightarrow> string list" where
  "splitPath isSep [] = [[]]"
| "splitPath isSep (c # cs) =
     (if isSep c then [] # splitPath isSep cs
      else (case splitPath isSep cs of
              [] \<Rightarrow> [[c]]
            | seg # segs \<Rightarrow> (c # seg) # segs))"

fun normalizeSegments :: "bool \<Rightarrow> string list \<Rightarrow> string list \<Rightarrow> string list" where
  "normalizeSegments allowAboveRoot res [] = res"
| "normalizeSegments allowAboveRoot res (seg # segs) =
     (if seg = [] \<or> seg = ''.'' then normalizeSegments allowAboveRoot res segs
      else if seg = ''..'' then
        (if res \<noteq> [] \<and> last res \<noteq> ''..'' then normalizeSegments allowAboveRoot (butlast res) segs
         else if allowAboveRoot then normalizeSegments allowAboveRoot (res @ [''..'']) segs
         else normalizeSegments allowAboveRoot res segs)
      else normalizeSegments allowAboveRoot (res @ [seg]) segs)"

fun joinSegments :: "string \<Rightarrow> string list \<Rightarrow> string" where
  "joinSegments sep [] = []"
| "joinSegments sep [x] = x"
| "joinSegments sep (x # y # ys) = x @ sep @ joinSegments sep (y # ys)"

definition normalizeWith :: "string \<Rightarrow> (char \<Rightarrow> bool) \<Rightarrow> string \<Rightarrow> string" where
  "normalizeWith sep isSep p =
     (let isAbsolute = (p \<noteq> [] \<and> isSep (hd p));
          trailingSeparator = (p \<noteq> [] \<and> isSep (last p));
          body = joinSegments sep (normalizeSegments (\<not> isAbsolute) [] (splitPath isSep p))
      in if body = [] then (if isAbsolute then sep else if trailingSeparator then ''.'' @ sep else ''.'')
         else (if isAbsolute then sep else []) @ body @ (if trailingSeparator then sep else []))"

definition posixJoin :: "string list \<Rightarrow> string" where
  "posixJoin args =
     (let parts = filter (\<lambda>a. a \<noteq> []) args
      in if parts = [] then ''.''
         else normalizeWith ''/'' (\<lambda>c. c = CHR ''/'') (joinSegments ''/'' parts))"

definition backslash :: string where
  "backslash = [CHR 0x5C]"

definition win32Join :: "string list \<Rightarrow> string" where
  "win32Join args =
     (let parts = filter (\<lambda>a. a \<noteq> []) args;
          joined = joinSegments backslash parts;
          hasDrive = (2 \<le> length joined \<and> joined ! 1 = CHR '':'');
          device = (if hasDrive then take 2 joined else []);
          rest = (if hasDrive then drop 2 joined else joined)
      in if parts = [] then ''.''
         else if rest = [] then device @ ''.''
         else device @ normalizeWith backslash (\<lambda>c. c = CHR ''/'' \<or> c = CHR 0x5C) rest)"

text \<open>Example values of the constants.\<close>

definition exampleConstants :: constants where
  "exampleConstants =
     \<lparr> pythonBundleVersion = ''0.0.1'', pythonVersion = ''3.6.6'', winPlatform = ''win32'',
       notebookConfigKey = ''notebook'', pythonPathConfigKey = ''pythonPath'',
       sparkMagicVersion = ''0.12.6.2'' \<rparr>"

text \<open>
  A Linux host: the files of the list exist, nothing runs, no operation fails, and the
  download emits the given events.
\<close>

definition linuxWorld :: "string list \<Rightarrow> download_event list \<Rightarrow> world" where
  "linuxWorld files events =
     \<lparr> processPlatform = ''linux'', pathJoin = posixJoin, pathDelimiter = '':'',
       osPlatform = Linux, osPlatformId = ''linux'', userHome = ''/home/u'',
       getErrorMessage = jsString,
       existsSync = (\<lambda>p. p \<in> set files),
       openError = (\<lambda>p. if p \<in> set files then None else Some ''ENOENT''),
       closeError = None, mkdirsError = None, downloadEvents = events,
       removeSyncError = None, decompressError = None, unlinkError = None,
       execError = (\<lambda>_. None), configUpdateError = None \<rparr>"

text \<open>The same for Windows.\<close>

definition windowsWorld :: "string list \<Rightarrow> download_event list \<Rightarrow> world" where
  "windowsWorld files events =
     \<lparr> processPlatform = ''win32'', pathJoin = win32Join, pathDelimiter = '';'',
       osPlatform = Windows, osPlatformId = ''win-x64'', userHome = ''C:'' @ backslash @ ''Users'' @ backslash @ ''u'',
       getErrorMessage = jsString,
       existsSync = (\<lambda>p. p \<in> set files),
       openError = (\<lambda>p. if p \<in> set files then None else Some ''ENOENT''),
       closeError = None, mkdirsError = None, downloadEvents = events,
       removeSyncError = None, decompressError = None, unlinkError = None,
       execError = (\<lambda>_. None), configUpdateError = None \<rparr>"

text \<open>
  An installer constructed for the path \<open>/home/u/py\<close>, and one for \<open>C:\py\<close>, with the
  inherited \<open>PATH\<close> given and an empty configuration store.
\<close>

definition linuxInstaller :: "world \<Rightarrow> sys" where
  "linuxInstaller W =
     newJupyterServerInstallation exampleConstants W None (Some ''/home/u/py'')
       [''PATH'' \<mapsto> ''/usr/bin''] Map.empty"

definition windowsInstaller :: "world \<Rightarrow> sys" where
  "windowsInstaller W =
     newJupyterServerInstallation exampleConstants W None (Some (''C:'' @ backslash @ ''py''))
       [''PATH'' \<mapsto> ''C:'' @ backslash @ ''Windows''] Map.empty"

subsection \<open>Observations on a run\<close>

text \<open>The subprocess commands among the effects, and the status updates of the task.\<close>

fun isExecCommand :: "effect \<Rightarrow> bool" where
  "isExecCommand (ExecCommand c) = True"
| "isExecCommand _ = False"

definition execs :: "sys \<Rightarrow> effect list" where
  "execs s = filter isExecCommand (trace s)"

fun statusUpdates :: "effect list \<Rightarrow> (TaskStatus \<times> string) list" where
  "statusUpdates [] = []"
| "statusUpdates (UpdateStatus st msg # es) = (st, msg) # statusUpdates es"
| "statusUpdates (e # es) = statusUpdates es"

text \<open>The installer without its in-progress guard.\<close>

definition unguarded :: "sys \<Rightarrow> JupyterServerInstallation" where
  "unguarded s = (installer s)\<lparr> installInProgress := False \<rparr>"

text \<open>Once \<open>installReady\<close> is settled, the guard is down.\<close>

definition guardReleased :: "sys \<Rightarrow> bool" where
  "guardReleased s = (if installReady s = Pending then True else \<not> installInProgress (installer s))"

subsection \<open>Concrete runs\<close>

text \<open>A Windows path from its segments.\<close>

definition winPath :: "string list \<Rightarrow> string" where
  "winPath segs = joinSegments backslash segs"

text \<open>The executable is there already.\<close>

definition presentWorld :: world where
  "presentWorld = linuxWorld [''/home/u/py/0.0.1/bin/python3''] []"

text \<open>The executable is there and is running: it cannot be opened for writing.\<close>

definition busyWorld :: world where
  "busyWorld = presentWorld\<lparr> openError := (\<lambda>p. Some ''EBUSY'') \<rparr>"

text \<open>
  The server answers 404, the body is written to the archive file and the file is closed;
  the body is not an archive.
\<close>

definition notFoundWorld :: world where
  "notFoundWorld =
     (linuxWorld [] [Response 404 ''Not Found'', Data 512, Close])\<lparr> decompressError := Some ''not an archive'' \<rparr>"

text \<open>The download and the decompression succeed; the archive cannot be deleted.\<close>

definition unlinkFailsWorld :: world where
  "unlinkFailsWorld =
     (linuxWorld [] [Response 200 ''OK'', Data 1024, Close])\<lparr> unlinkError := Some ''EACCES'' \<rparr>"

text \<open>A download that succeeds, on Linux.\<close>

definition downloadWorld :: world where
  "downloadWorld = linuxWorld [] [Response 200 ''OK'', Data 1024, Close]"

text \<open>
  A file system with the runtime unpacked under \<open>/home/u/py\<close>, and a configuration
  store whose notebook section records the given path.
\<close>

definition unpackedWorld :: world where
  "unpackedWorld =
     linuxWorld [''/'', ''/home'', ''/home/u'', ''/home/u/py'', ''/home/u/py/0.0.1'',
                 ''/home/u/py/0.0.1/bin'', ''/home/u/py/0.0.1/bin/python3''] []"

definition storeWith :: "string \<Rightarrow> ApiWrapper" where
  "storeWith p =
     \<lparr> getConfiguration = (\<lambda>k. if k = ''notebook'' then Some [''pythonPath'' \<mapsto> p] else None) \<rparr>"

section \<open>Properties of the process shim\<close>

text \<open>
  C10. When the global process object is undefined, the exported \<open>cwd()\<close> returns \<open>/\<close>,
  the exported \<open>env\<close> has no properties, and the exported \<open>platform\<close> is \<open>win32\<close>,
  \<open>darwin\<close> or \<open>linux\<close> according to the platform flags (Windows first, then Macintosh);
  when the global process object is defined, the exports are that object's \<open>cwd\<close>,
  \<open>env\<close> and \<open>platform\<close>.
\<close>

theorem process_shim_exports:
  "export_cwd w m None () = ''/''
   \<and> dom (export_env w m None) = {}
   \<and> export_platform w m None = (if w then ''win32'' else if m then ''darwin'' else ''linux'')
   \<and> export_platform w m None \<in> {''win32'', ''darwin'', ''linux''}
   \<and> export_cwd w m (Some p) = cwd p
   \<and> export_env w m (Some p) = env p
   \<and> export_platform w m (Some p) = platform p"
  by (simp add: export_cwd_def export_env_def export_platform_def safeProcess_def)


section \<open>Properties of the worker factory\<close>

lemma create_latched:
  "truthy (webWorkerFailedBeforeError f) \<Longrightarrow>
   create g n f m = (Inl (webWorkerFailedBeforeError f), n + 1)"
  by (simp add: create_def)

lemma create_Inr_id:
  "create g n f m = (Inr w, k) \<Longrightarrow> workerId w = n + 1 \<and> k = n + 1"
  by (auto simp: create_def Let_def split: if_splits option.splits)

lemma create_counter: "snd (create g n f m) = n + 1"
  by (simp add: create_def Let_def split: option.splits)

lemma create_returns:
  "\<not> truthy (webWorkerFailedBeforeError f) \<Longrightarrow> \<forall>l. g ''workerMain.js'' l = None \<Longrightarrow>
   \<exists>w. create g n f m = (Inr w, n + 1) \<and> workerId w = n + 1"
  by (simp add: create_def Let_def)

lemma run_recorded:
  "webWorkerFailedBeforeError (factories (worker_run g ops s) i) =
     last (webWorkerFailedBeforeError (factories s i) # firedOn i ops)"
proof (induction ops arbitrary: s)
  case Nil
  then show ?case by simp
next
  case (Cons x xs)
  show ?case
    by (cases x) (auto simp: Cons.IH workerErrorCallback_def split: prod.splits sum.splits)
qed

lemma ids_inv_step: "ids_inv s \<Longrightarrow> ids_inv (worker_step g x s)"
proof (cases x)
  case (Create i m)
  assume inv: "ids_inv s"
  obtain r n where c: "create g (lastWorkerId s) (factories s i) m = (r, n)"
    by (cases "create g (lastWorkerId s) (factories s i) m")
  have n: "n = lastWorkerId s + 1"
    using create_counter [of g "lastWorkerId s" "factories s i" m] c by simp
  show ?thesis
  proof (cases r)
    case (Inl e)
    with inv c n Create show ?thesis
      by (auto simp: ids_inv_def list_all_iff)
  next
    case (Inr w)
    with c have "workerId w = lastWorkerId s + 1" using create_Inr_id by blast
    with inv c n Create Inr show ?thesis
      by (auto simp: ids_inv_def list_all_iff sorted_wrt_append)
  qed
next
  case (ErrorFired i e)
  assume "ids_inv s"
  with ErrorFired show ?thesis by (simp add: ids_inv_def)
qed

lemma ids_inv_run: "ids_inv s \<Longrightarrow> ids_inv (worker_run g ops s)"
  by (induction ops arbitrary: s) (auto simp: ids_inv_step)

lemma ids_inv0: "ids_inv (worker_sys0 L)"
  by (simp add: ids_inv_def worker_sys0_def)

lemma run_counter:
  "lastWorkerId (worker_run g ops s) = lastWorkerId s + length (filter isCreate ops)"
proof (induction ops arbitrary: s)
  case Nil
  then show ?case by simp
next
  case (Cons x xs)
  show ?case
  proof (cases x)
    case (Create i m)
    obtain r n where c: "create g (lastWorkerId s) (factories s i) m = (r, n)"
      by (cases "create g (lastWorkerId s) (factories s i) m")
    have n: "n = lastWorkerId s + 1"
      using create_counter [of g "lastWorkerId s" "factories s i" m] c by simp
    show ?thesis using Create c n by (cases r) (simp_all add: Cons.IH)
  next
    case (ErrorFired i e)
    then show ?thesis by (simp add: Cons.IH)
  qed
qed

lemma unfired_unlatched:
  "firedOn j ops = [] \<Longrightarrow>
   webWorkerFailedBeforeError (factories (worker_run g ops (worker_sys0 L)) j) = JBool False"
  by (simp add: run_recorded worker_sys0_def newDefaultWorkerFactory_def)

lemma create_step_appends:
  assumes "create g (lastWorkerId t) (factories t j) m = (Inr w, n)"
  shows "workers (worker_step g (Create j m) t) = workers t @ [(j, w)]"
    and "lastWorkerId (worker_step g (Create j m) t) = n"
  using assms by simp_all

lemma error_free_run_ids:
  assumes "\<forall>x\<in>set ops. isCreate x" and "\<forall>l. g ''workerMain.js'' l = None"
    and "\<forall>j. \<not> truthy (webWorkerFailedBeforeError (factories s j))"
  shows "map (workerId \<circ> snd) (workers (worker_run g ops s))
           = map (workerId \<circ> snd) (workers s) @ [Suc (lastWorkerId s) ..< Suc (lastWorkerId s) + length ops]"
  using assms
proof (induction ops arbitrary: s)
  case Nil
  then show ?case by simp
next
  case (Cons x xs)
  from Cons.prems(1) obtain i m where x: "x = Create i m" by (cases x) auto
  from Cons.prems(3) have u: "\<not> truthy (webWorkerFailedBeforeError (factories s i))" by blast
  from create_returns [of "factories s i" g "lastWorkerId s" m] u Cons.prems(2)
  obtain w where c: "create g (lastWorkerId s) (factories s i) m = (Inr w, lastWorkerId s + 1)"
    and w: "workerId w = lastWorkerId s + 1" by blast
  let ?s' = "worker_step g x s"
  have s': "workers ?s' = workers s @ [(i, w)]" "lastWorkerId ?s' = lastWorkerId s + 1"
    "factories ?s' = factories s"
    using x c by simp_all
  have "\<forall>j. \<not> truthy (webWorkerFailedBeforeError (factories ?s' j))"
    using Cons.prems(3) s'(3) by simp
  moreover have "\<forall>x\<in>set xs. isCreate x" using Cons.prems(1) by simp
  ultimately have ih: "map (workerId \<circ> snd) (workers (worker_run g xs ?s'))
           = map (workerId \<circ> snd) (workers ?s') @ [Suc (lastWorkerId ?s') ..< Suc (lastWorkerId ?s') + length xs]"
    using Cons.IH [of ?s'] Cons.prems(2) by blast
  have "[Suc (lastWorkerId s) ..< Suc (lastWorkerId s) + length (x # xs)]
          = Suc (lastWorkerId s) # [Suc (Suc (lastWorkerId s)) ..< Suc (Suc (lastWorkerId s)) + length xs]"
    by (subst upt_conv_Cons) (simp_all del: upt_Suc)
  then show ?case using ih s' w by (simp add: comp_def del: upt_Suc)
qed

text \<open>
  C9. Let the error callback of a worker of factory \<open>i\<close> fire with an error \<open>e\<close> after any
  run \<open>ops1\<close>, and let any operations \<open>ops2\<close> follow, on this and on other factories. If
  \<open>e\<close> and the errors fired on factory \<open>i\<close> afterwards are truthy (as the event objects
  are that a worker passes to its error listeners), then the factory holds the error
  recorded last, a call of \<open>create\<close> on it throws that error, the counter is incremented,
  and no worker is constructed.

  In every run \<open>ops\<close> from the start the counter is the number of calls of \<open>create\<close>, the
  ids of the workers grow strictly in the order of construction, and a worker that
  \<open>create\<close> returns has an id above the ids of all workers constructed before. Until an
  error callback has fired on factory \<open>j\<close> (no error is fired on it in \<open>ops\<close>), and
  when the host's worker loader does not throw, a call of \<open>create\<close> on factory \<open>j\<close>
  returns a worker for the module: its id is the counter plus one and is above the ids of
  all workers constructed before, and the worker is the last of the workers afterwards.
  In a run of \<open>n\<close> calls of \<open>create\<close> and nothing else the workers have the ids
  \<open>1, ..., n\<close>.
\<close>

theorem worker_factory_latch_and_ids:
  assumes e: "truthy e" and later: "\<forall>x\<in>set (firedOn i ops2). truthy x"
  shows
  "(let s = worker_run g ops2 (worker_step g (ErrorFired i e) (worker_run g ops1 (worker_sys0 L)));
        recorded = last (e # firedOn i ops2)
    in webWorkerFailedBeforeError (factories s i) = recorded
       \<and> create g (lastWorkerId s) (factories s i) m = (Inl recorded, lastWorkerId s + 1)
       \<and> workers (worker_step g (Create i m) s) = workers s
       \<and> lastWorkerId (worker_step g (Create i m) s) = lastWorkerId s + 1)
   \<and> (let t = worker_run g ops (worker_sys0 L)
      in lastWorkerId t = length (filter isCreate ops)
         \<and> sorted_wrt (<) (map (workerId \<circ> snd) (workers t))
         \<and> (\<forall>w. fst (create g (lastWorkerId t) (factories t j) m') = Inr w
               \<longrightarrow> (\<forall>p\<in>set (workers t). workerId (snd p) < workerId w))
         \<and> (firedOn j ops = [] \<and> (\<forall>l. g ''workerMain.js'' l = None)
               \<longrightarrow> (\<exists>w. create g (lastWorkerId t) (factories t j) m' = (Inr w, lastWorkerId t + 1)
                        \<and> workerId w = lastWorkerId t + 1
                        \<and> workerModuleId w = m'
                        \<and> workers (worker_step g (Create j m') t) = workers t @ [(j, w)]
                        \<and> lastWorkerId (worker_step g (Create j m') t) = lastWorkerId t + 1
                        \<and> (\<forall>p\<in>set (workers t). workerId (snd p) < workerId w)))
         \<and> ((\<forall>x\<in>set ops. isCreate x) \<and> (\<forall>l. g ''workerMain.js'' l = None)
               \<longrightarrow> map (workerId \<circ> snd) (workers t) = [1 ..< Suc (length ops)]))"
proof -
  define s where "s = worker_run g ops2 (worker_step g (ErrorFired i e) (worker_run g ops1 (worker_sys0 L)))"
  define t where "t = worker_run g ops (worker_sys0 L)"
  have rec: "webWorkerFailedBeforeError (factories s i) = last (e # firedOn i ops2)"
    unfolding s_def by (simp add: run_recorded workerErrorCallback_def)
  have "last (e # firedOn i ops2) \<in> set (e # firedOn i ops2)"
    by (rule last_in_set) simp
  with e later have tr: "truthy (last (e # firedOn i ops2))" by auto
  have cr: "create g (lastWorkerId s) (factories s i) m = (Inl (last (e # firedOn i ops2)), lastWorkerId s + 1)"
    using create_latched [of "factories s i" g "lastWorkerId s" m] rec tr by simp
  have same: "workers (worker_step g (Create i m) s) = workers s"
    and cnt: "lastWorkerId (worker_step g (Create i m) s) = lastWorkerId s + 1"
    using cr by simp_all
  have inv: "ids_inv t" unfolding t_def by (rule ids_inv_run [OF ids_inv0])
  have count: "lastWorkerId t = length (filter isCreate ops)"
    unfolding t_def by (simp add: run_counter worker_sys0_def)
  have srt: "sorted_wrt (<) (map (workerId \<circ> snd) (workers t))"
    using inv by (simp add: ids_inv_def)
  have gt: "\<forall>p\<in>set (workers t). workerId (snd p) < workerId w"
    if r: "fst (create g (lastWorkerId t) (factories t j) m') = Inr w" for w
  proof
    fix p assume p: "p \<in> set (workers t)"
    from r have "workerId w = lastWorkerId t + 1"
      using create_Inr_id [of g "lastWorkerId t" "factories t j" m' w] by (metis prod.collapse)
    moreover from inv p have "workerId (snd p) \<le> lastWorkerId t"
      by (simp add: ids_inv_def list_all_iff)
    ultimately show "workerId (snd p) < workerId w" by simp
  qed
  have ret: "\<exists>w. create g (lastWorkerId t) (factories t j) m' = (Inr w, lastWorkerId t + 1)
                        \<and> workerId w = lastWorkerId t + 1
                        \<and> workerModuleId w = m'
                        \<and> workers (worker_step g (Create j m') t) = workers t @ [(j, w)]
                        \<and> lastWorkerId (worker_step g (Create j m') t) = lastWorkerId t + 1
                        \<and> (\<forall>p\<in>set (workers t). workerId (snd p) < workerId w)"
    if "firedOn j ops = [] \<and> (\<forall>l. g ''workerMain.js'' l = None)"
  proof -
    from that have "webWorkerFailedBeforeError (factories t j) = JBool False"
      unfolding t_def by (simp add: unfired_unlatched)
    then have u: "\<not> truthy (webWorkerFailedBeforeError (factories t j))" by simp
    from that have l: "\<forall>l. g ''workerMain.js'' l = None" by blast
    from create_returns [of "factories t j" g "lastWorkerId t" m'] u l
    obtain w where c: "create g (lastWorkerId t) (factories t j) m' = (Inr w, lastWorkerId t + 1)"
      and w: "workerId w = lastWorkerId t + 1" by blast
    have md: "workerModuleId w = m'"
      using c u by (auto simp: create_def Let_def split: option.splits)
    have ap: "workers (worker_step g (Create j m') t) = workers t @ [(j, w)]"
        "lastWorkerId (worker_step g (Create j m') t) = lastWorkerId t + 1"
      using c by simp_all
    have "fst (create g (lastWorkerId t) (factories t j) m') = Inr w" using c by simp
    from gt [OF this] c w md ap show ?thesis by blast
  qed
  have all: "map (workerId \<circ> snd) (workers t) = [1 ..< Suc (length ops)]"
    if "(\<forall>x\<in>set ops. isCreate x) \<and> (\<forall>l. g ''workerMain.js'' l = None)"
  proof -
    have "\<forall>j. \<not> truthy (webWorkerFailedBeforeError (factories (worker_sys0 L) j))"
      by (simp add: worker_sys0_def newDefaultWorkerFactory_def)
    with that error_free_run_ids [of ops g "worker_sys0 L"]
    show ?thesis unfolding t_def by (simp add: worker_sys0_def)
  qed
  show ?thesis
    unfolding Let_def s_def [symmetric] t_def [symmetric]
    using rec cr same cnt count srt gt ret all by blast
qed


text \<open>
  Two factories: the first creates a worker, whose error callback fires; the second
  creates a worker, and the error callback of the first factory's worker fires once more.
  Then \<open>create\<close> on the first factory throws the second error. In a run of three calls
  without errors the workers have the ids 1, 2 and 3, and a fourth call on the second
  factory adds a worker with the id 4.
\<close>

theorem worker_factory_latch_and_ids_witness:
  "truthy (JObj 7) \<and> list_all truthy (firedOn 0 [Create 1 ''b'', ErrorFired 0 (JObj 8)])
   \<and> fst (create (\<lambda>_ _. None)
            (lastWorkerId (worker_run (\<lambda>_ _. None) [Create 1 ''b'', ErrorFired 0 (JObj 8)]
                (worker_step (\<lambda>_ _. None) (ErrorFired 0 (JObj 7))
                   (worker_run (\<lambda>_ _. None) [Create 0 ''a''] (worker_sys0 (\<lambda>_. None))))))
            (factories (worker_run (\<lambda>_ _. None) [Create 1 ''b'', ErrorFired 0 (JObj 8)]
                (worker_step (\<lambda>_ _. None) (ErrorFired 0 (JObj 7))
                   (worker_run (\<lambda>_ _. None) [Create 0 ''a''] (worker_sys0 (\<lambda>_. None))))) 0)
            ''m'') = Inl (JObj 8)
   \<and> firedOn 1 [Create 0 ''a'', Create 1 ''b'', Create 0 ''c''] = []
   \<and> list_all isCreate [Create 0 ''a'', Create 1 ''b'', Create 0 ''c'']
   \<and> map (workerId \<circ> snd)
        (workers (worker_run (\<lambda>_ _. None) [Create 0 ''a'', Create 1 ''b'', Create 0 ''c'']
           (worker_sys0 (\<lambda>_. None)))) = [1, 2, 3]
   \<and> map (workerId \<circ> snd)
        (workers (worker_step (\<lambda>_ _. None) (Create 1 ''d'')
           (worker_run (\<lambda>_ _. None) [Create 0 ''a'', Create 1 ''b'', Create 0 ''c'']
              (worker_sys0 (\<lambda>_. None))))) = [1, 2, 3, 4]"
proof -
  let ?g = "(\<lambda>_ _. None) :: string \<Rightarrow> string \<Rightarrow> jsval option"
  let ?ops2 = "[Create 1 ''b'', ErrorFired 0 (JObj 8)]"
  let ?ops = "[Create 0 ''a'', Create 1 ''b'', Create 0 ''c'']"
  let ?s = "worker_run ?g ?ops2 (worker_step ?g (ErrorFired 0 (JObj 7))
              (worker_run ?g [Create 0 ''a''] (worker_sys0 (\<lambda>_. None))))"
  let ?t = "worker_run ?g ?ops (worker_sys0 (\<lambda>_. None))"
  have h1: "truthy (JObj 7)" by simp
  have h2: "\<forall>x\<in>set (firedOn 0 ?ops2). truthy x" by simp
  have h3: "firedOn 1 ?ops = []" by simp
  have h4: "\<forall>x\<in>set ?ops. isCreate x" by simp
  have h5: "\<forall>l. ?g ''workerMain.js'' l = None" by simp
  note th = worker_factory_latch_and_ids [OF h1 h2, of ?g "[Create 0 ''a'']" "\<lambda>_. None" "''m''"
        ?ops 1 "''d''", unfolded Let_def]
  have a: "create ?g (lastWorkerId ?s) (factories ?s 0) ''m''
             = (Inl (last (JObj 7 # firedOn 0 ?ops2)), lastWorkerId ?s + 1)"
    using th by blast
  have c: "fst (create ?g (lastWorkerId ?s) (factories ?s 0) ''m'') = Inl (last (JObj 7 # firedOn 0 ?ops2))"
    by (simp only: a fst_conv)
  have d: "last (JObj 7 # firedOn 0 ?ops2) = JObj 8" by simp
  have n: "lastWorkerId ?t = length (filter isCreate ?ops)"
    using th by blast
  have n3: "length (filter isCreate ?ops) = 3" by simp
  have ids: "map (workerId \<circ> snd) (workers ?t) = [1 ..< Suc (length ?ops)]"
    using th h4 h5 by blast
  have iv: "[1 ..< Suc (length ?ops)] = [1, 2, 3]" by (simp add: upt_rec)
  obtain w where w: "workerId w = lastWorkerId ?t + 1"
      and ap: "workers (worker_step ?g (Create 1 ''d'') ?t) = workers ?t @ [(1, w)]"
    using th h3 h5 by blast
  have w4: "workerId w = 4" using w n n3 by simp
  have ids4: "map (workerId \<circ> snd) (workers (worker_step ?g (Create 1 ''d'') ?t)) = [1, 2, 3, 4]"
  proof -
    have "map (workerId \<circ> snd) (workers (worker_step ?g (Create 1 ''d'') ?t))
            = map (workerId \<circ> snd) (workers ?t) @ [workerId w]"
      by (simp only: ap map_append list.map comp_apply snd_conv)
    also have "\<dots> = [1, 2, 3] @ [4]" by (simp only: ids iv w4)
    finally show ?thesis by simp
  qed
  have e: "list_all truthy (firedOn 0 ?ops2)" by simp
  have f: "list_all isCreate ?ops" by simp
  show ?thesis
    using h1 e c [unfolded d] h3 f ids [unfolded iv] ids4 by blast
qed


section \<open>Properties of the installer\<close>

subsection \<open>The two guards\<close>

lemma isPythonRunning_frame:
  "snd (isPythonRunning C W p s) = s\<lparr> trace := trace s @ closeNotice C W p \<rparr>"
  by (simp add: isPythonRunning_def closeNotice_def emit_def split: option.splits)

lemma isPythonRunning_running:
  "fst (isPythonRunning C W p s) \<Longrightarrow> snd (isPythonRunning C W p s) = s"
  by (simp add: isPythonRunning_def split: option.splits)

lemma startInstallProcess_cases:
  "startInstallProcess C W f ip s =
     (if fst (isPythonRunning C W (targetPath ip s) s)
      then (Rejected msgPythonRunningError, s)
      else if installInProgress (installer s)
      then (Rejected msgPendingInstallError, s\<lparr> trace := trace s @ closeNotice C W (targetPath ip s) \<rparr>)
      else proceedWithInstall C W f ip (s\<lparr> trace := trace s @ closeNotice C W (targetPath ip s) \<rparr>))"
proof (cases "isPythonRunning C W (targetPath ip s) s")
  case (Pair r s0)
  have s0: "s0 = s\<lparr> trace := trace s @ closeNotice C W (targetPath ip s) \<rparr>"
    using isPythonRunning_frame [of C W "targetPath ip s" s] Pair by simp
  have run: "r \<Longrightarrow> s0 = s"
    using isPythonRunning_running [of C W "targetPath ip s" s] Pair by simp
  show ?thesis
  proof (cases r)
    case True
    with Pair run show ?thesis by (simp add: startInstallProcess_def)
  next
    case False
    with Pair s0 show ?thesis by (simp add: startInstallProcess_def)
  qed
qed

text \<open>
  C6. \<open>startInstallProcess\<close> checks the running-check first: when the executable appears
  to be running, the call is rejected with the message of \<open>msgPythonRunningError\<close> and
  the whole state is as before, whatever the in-progress guard is. When the executable
  does not appear to be running and an install is in progress, the call is rejected with
  the message of \<open>msgPendingInstallError\<close>; the installer (the force flag, the
  installation path, the derived paths and the guard), the ambient environment and the
  configuration store are as before, and the only effect is the message of the running
  check's \<open>close\<close> callback: no background task is created.
\<close>

theorem preflight_guards_reject_without_mutation:
  "(fst (isPythonRunning C W (targetPath ip s) s) \<longrightarrow>
      startInstallProcess C W f ip s = (Rejected msgPythonRunningError, s))
   \<and> (\<not> fst (isPythonRunning C W (targetPath ip s) s) \<and> installInProgress (installer s) \<longrightarrow>
        (let (outcome, s') = startInstallProcess C W f ip s
         in outcome = Rejected msgPendingInstallError
            \<and> installer s' = installer s
            \<and> processEnv s' = processEnv s
            \<and> notebookConfig s' = notebookConfig s
            \<and> trace s' = trace s @ closeNotice C W (targetPath ip s)
            \<and> StartBackgroundOperation msgTaskName \<notin> set (closeNotice C W (targetPath ip s))))"
  by (simp add: startInstallProcess_cases closeNotice_def split: option.splits)

text \<open>
  The executable is busy and an install is in progress: the call is rejected for the
  running executable. The executable can be opened and an install is in progress: the
  call is rejected for the install in progress, and the installer is as before.
\<close>

theorem preflight_guards_reject_without_mutation_witness:
  "fst (isPythonRunning exampleConstants busyWorld
          (targetPath None (setInstallInProgress True (linuxInstaller busyWorld)))
          (setInstallInProgress True (linuxInstaller busyWorld)))
   \<and> startInstallProcess exampleConstants busyWorld True None
         (setInstallInProgress True (linuxInstaller busyWorld))
       = (Rejected msgPythonRunningError, setInstallInProgress True (linuxInstaller busyWorld))
   \<and> \<not> fst (isPythonRunning exampleConstants presentWorld
          (targetPath None (setInstallInProgress True (linuxInstaller presentWorld)))
          (setInstallInProgress True (linuxInstaller presentWorld)))
   \<and> installInProgress (installer (setInstallInProgress True (linuxInstaller presentWorld)))
   \<and> fst (startInstallProcess exampleConstants presentWorld True None
         (setInstallInProgress True (linuxInstaller presentWorld)))
       = Rejected msgPendingInstallError
   \<and> installer (snd (startInstallProcess exampleConstants presentWorld True None
         (setInstallInProgress True (linuxInstaller presentWorld))))
       = installer (setInstallInProgress True (linuxInstaller presentWorld))"
proof -
  let ?b = "setInstallInProgress True (linuxInstaller busyWorld)"
  let ?p = "setInstallInProgress True (linuxInstaller presentWorld)"
  have h1: "fst (isPythonRunning exampleConstants busyWorld (targetPath None ?b) ?b)"
    by code_simp
  have h2: "\<not> fst (isPythonRunning exampleConstants presentWorld (targetPath None ?p) ?p)"
    by code_simp
  have h3: "installInProgress (installer ?p)"
    by (simp add: setInstallInProgress_def)
  have c1: "startInstallProcess exampleConstants busyWorld True None ?b = (Rejected msgPythonRunningError, ?b)"
    using preflight_guards_reject_without_mutation [of exampleConstants busyWorld None ?b True] h1
    by blast
  have c2: "(let (outcome, s') = startInstallProcess exampleConstants presentWorld True None ?p
         in outcome = Rejected msgPendingInstallError \<and> installer s' = installer ?p)"
    using preflight_guards_reject_without_mutation [of exampleConstants presentWorld None ?p True] h2 h3
    by (simp add: Let_def split: prod.splits)
  from c2 have c3: "fst (startInstallProcess exampleConstants presentWorld True None ?p) = Rejected msgPendingInstallError"
    and c4: "installer (snd (startInstallProcess exampleConstants presentWorld True None ?p)) = installer ?p"
    by (simp_all add: Let_def split: prod.splits)
  show ?thesis using h1 h2 h3 c1 c3 c4 by blast
qed


subsection \<open>What the pipeline leaves alone\<close>

text \<open>
  Three facts about every function of the pipeline: it changes nothing of the installer
  but the in-progress guard; once \<open>installReady\<close> is settled the guard is down; and off
  Windows it runs no subprocess.
\<close>

lemma emit_keeps [simp]:
  "unguarded (emit e s) = unguarded s"
  "guardReleased (emit e s) = guardReleased s"
  "execs (emit e s) = execs s @ (if isExecCommand e then [e] else [])"
  by (simp_all add: emit_def unguarded_def guardReleased_def execs_def)

lemma reject_keeps [simp]:
  "unguarded (reject e s) = unguarded s"
  "guardReleased (reject e s) = guardReleased s"
  "execs (reject e s) = execs s"
  by (simp_all add: reject_def unguarded_def guardReleased_def execs_def)

lemma resolve_keeps [simp]:
  "unguarded (resolve s) = unguarded s"
  "guardReleased (resolve s) = guardReleased s"
  "execs (resolve s) = execs s"
  by (simp_all add: resolve_def unguarded_def guardReleased_def execs_def)

lemma resumed_keeps [simp]:
  "unguarded (s\<lparr> resumed := b \<rparr>) = unguarded s"
  "guardReleased (s\<lparr> resumed := b \<rparr>) = guardReleased s"
  "execs (s\<lparr> resumed := b \<rparr>) = execs s"
  by (simp_all add: unguarded_def guardReleased_def execs_def)

lemma updateConfig_keeps [simp]:
  "unguarded (snd (updateConfig C W s)) = unguarded s"
  "guardReleased (snd (updateConfig C W s)) = guardReleased s"
  "execs (snd (updateConfig C W s)) = execs s"
  by (simp_all add: updateConfig_def Let_def emit_def unguarded_def guardReleased_def execs_def
      split: option.splits)

lemma catchHandler_keeps [simp]:
  "unguarded (catchHandler C W e s) = unguarded s"
  "guardReleased (catchHandler C W e s)"
  "execs (catchHandler C W e s) = execs s"
  by (simp_all add: catchHandler_def Let_def emit_def setInstallInProgress_def
      unguarded_def guardReleased_def execs_def)

lemma setInstallInProgress_keeps [simp]:
  "unguarded (setInstallInProgress b s) = unguarded s"
  "guardReleased (setInstallInProgress False s)"
  "execs (setInstallInProgress b s) = execs s"
  by (simp_all add: setInstallInProgress_def unguarded_def guardReleased_def execs_def)

lemma installReady_keeps [simp]:
  "unguarded (s\<lparr> installReady := p \<rparr>) = unguarded s"
  "execs (s\<lparr> installReady := p \<rparr>) = execs s"
  by (simp_all add: unguarded_def execs_def)

lemma thenHandler_keeps [simp]:
  "unguarded (thenHandler C W s) = unguarded s"
  "guardReleased (thenHandler C W s)"
  "execs (thenHandler C W s) = execs s"
proof -
  obtain r s1 where u: "updateConfig C W s = (r, s1)" by (cases "updateConfig C W s")
  have s1: "unguarded s1 = unguarded s" "execs s1 = execs s"
    using updateConfig_keeps [of C W s] u by simp_all
  show "unguarded (thenHandler C W s) = unguarded s"
    using u s1 by (cases r) (simp_all add: thenHandler_def)
  show "guardReleased (thenHandler C W s)"
    using u by (cases r) (simp_all add: thenHandler_def)
  show "execs (thenHandler C W s) = execs s"
    using u s1 by (cases r) (simp_all add: thenHandler_def)
qed

lemma installJupyterProsePackage_keeps [simp]:
  "unguarded (snd (installJupyterProsePackage C W s)) = unguarded s"
  "guardReleased (snd (installJupyterProsePackage C W s)) = guardReleased s"
  by (simp_all add: installJupyterProsePackage_def Let_def)

lemma installSparkMagic_keeps [simp]:
  "unguarded (snd (installSparkMagic C W s)) = unguarded s"
  "guardReleased (snd (installSparkMagic C W s)) = guardReleased s"
  by (simp_all add: installSparkMagic_def Let_def)

lemma package_installs_skipped:
  "processPlatform W \<noteq> winPlatform C \<Longrightarrow> installJupyterProsePackage C W s = (None, s)"
  "processPlatform W \<noteq> winPlatform C \<Longrightarrow> installSparkMagic C W s = (None, s)"
  by (simp_all add: installJupyterProsePackage_def installSparkMagic_def)

lemma afterInstallPythonPackage_keeps [simp]:
  "unguarded (afterInstallPythonPackage C W s) = unguarded s"
  "guardReleased (afterInstallPythonPackage C W s)"
proof -
  let ?s1 = "emit (UpdateStatus InProgress msgPythonDownloadComplete) s"
  obtain r s2 where j: "installJupyterProsePackage C W ?s1 = (r, s2)"
    by (cases "installJupyterProsePackage C W ?s1")
  obtain r' s3 where m: "installSparkMagic C W s2 = (r', s3)"
    by (cases "installSparkMagic C W s2")
  have s2: "unguarded s2 = unguarded s"
    using installJupyterProsePackage_keeps(1) [of C W ?s1] j by simp
  have s3: "unguarded s3 = unguarded s"
    using installSparkMagic_keeps(1) [of C W s2] m s2 by simp
  show "unguarded (afterInstallPythonPackage C W s) = unguarded s"
    using j m s2 s3 by (cases r; cases r') (simp_all add: afterInstallPythonPackage_def)
  show "guardReleased (afterInstallPythonPackage C W s)"
    using j m by (cases r; cases r') (simp_all add: afterInstallPythonPackage_def)
qed

lemma afterInstallPythonPackage_execs [simp]:
  "processPlatform W \<noteq> winPlatform C \<Longrightarrow> execs (afterInstallPythonPackage C W s) = execs s"
  by (simp add: afterInstallPythonPackage_def package_installs_skipped)

lemma resume_keeps [simp]:
  "unguarded (resume C W s) = unguarded s"
  "guardReleased s \<Longrightarrow> guardReleased (resume C W s)"
  "processPlatform W \<noteq> winPlatform C \<Longrightarrow> execs (resume C W s) = execs s"
  by (simp_all add: resume_def split: promise.splits)

lemma onClose_keeps [simp]:
  "unguarded (onClose C W s) = unguarded s"
  "guardReleased s \<Longrightarrow> guardReleased (onClose C W s)"
  "processPlatform W \<noteq> winPlatform C \<Longrightarrow> execs (onClose C W s) = execs s"
  by (simp_all add: onClose_def Let_def split: option.splits)

lemma onEvent_keeps [simp]:
  "unguarded (onEvent C W e s) = unguarded s"
  "guardReleased s \<Longrightarrow> guardReleased (onEvent C W e s)"
  "processPlatform W \<noteq> winPlatform C \<Longrightarrow> execs (onEvent C W e s) = execs s"
  by (cases e; simp)+

lemma onEvents_keeps [simp]:
  "unguarded (onEvents C W es s) = unguarded s"
  "guardReleased s \<Longrightarrow> guardReleased (onEvents C W es s)"
  "processPlatform W \<noteq> winPlatform C \<Longrightarrow> execs (onEvents C W es s) = execs s"
  by (induction es arbitrary: s; simp)+

lemma installPythonPackage_keeps [simp]:
  "unguarded (installPythonPackage C W s) = unguarded s"
  "guardReleased s \<Longrightarrow> guardReleased (installPythonPackage C W s)"
  "processPlatform W \<noteq> winPlatform C \<Longrightarrow> execs (installPythonPackage C W s) = execs s"
  by (simp_all add: installPythonPackage_def Let_def split: option.splits)

lemma installDependencies_keeps [simp]:
  "unguarded (installDependencies C W s) = unguarded s"
  "guardReleased s \<Longrightarrow> guardReleased (installDependencies C W s)"
  "processPlatform W \<noteq> winPlatform C \<Longrightarrow> execs (installDependencies C W s) = execs s"
  by (simp_all add: installDependencies_def Let_def)

lemma unguarded_fields:
  assumes "unguarded t = unguarded s"
  shows "pythonInstallationPath (installer t) = pythonInstallationPath (installer s)"
    and "pythonExecutable (installer t) = pythonExecutable (installer s)"
    and "pythonBinPath (installer t) = pythonBinPath (installer s)"
    and "pythonPackageDir (installer t) = pythonPackageDir (installer s)"
    and "pythonEnvVarPath (installer t) = pythonEnvVarPath (installer s)"
    and "forceInstall (installer t) = forceInstall (installer s)"
  using assms by (cases "installer t"; cases "installer s"; simp add: unguarded_def)+

lemma configurePackagePaths_fields [simp]:
  "pythonExecutable (installer (configurePackagePaths C W s)) =
     getPythonExePath C W (pythonInstallationPath (installer s))"
  "pythonInstallationPath (installer (configurePackagePaths C W s)) = pythonInstallationPath (installer s)"
  "forceInstall (installer (configurePackagePaths C W s)) = forceInstall (installer s)"
  "installInProgress (installer (configurePackagePaths C W s)) = installInProgress (installer s)"
  "trace (configurePackagePaths C W s) = trace s"
  "notebookConfig (configurePackagePaths C W s) = notebookConfig s"
  by (simp_all add: configurePackagePaths_def Let_def)

lemma configurePackagePaths_execs [simp]:
  "execs (configurePackagePaths C W s) = execs s"
  by (simp add: execs_def)

lemma prepareInstall_fields [simp]:
  "pythonExecutable (installer (prepareInstall C W f ip s0)) = getPythonExePath C W (targetPath ip s0)"
  "pythonInstallationPath (installer (prepareInstall C W f ip s0)) = targetPath ip s0"
  "forceInstall (installer (prepareInstall C W f ip s0)) = f"
  "installInProgress (installer (prepareInstall C W f ip s0))"
  "trace (prepareInstall C W f ip s0) = trace s0"
  "notebookConfig (prepareInstall C W f ip s0) = notebookConfig s0"
  "installReady (prepareInstall C W f ip s0) = Pending"
  by (simp_all add: prepareInstall_def targetPath_def setInstallInProgress_def Let_def split: option.splits)

lemma targetPath_trace [simp]: "targetPath ip (s\<lparr> trace := t \<rparr>) = targetPath ip s"
  by (simp add: targetPath_def split: option.splits)



subsection \<open>The branch that skips the download\<close>

lemma skip_branch:
  assumes present: "existsSync W (getPythonExePath C W (targetPath ip s0))"
    and stored: "configUpdateError W = None"
  shows "proceedWithInstall C W False ip s0 =
           (Resolved,
            (prepareInstall C W False ip s0)
              \<lparr> trace := trace s0 @ [ConfigUpdate (pythonPathConfigKey C) (targetPath ip s0)],
                notebookConfig := (notebookConfig s0)(pythonPathConfigKey C \<mapsto> targetPath ip s0),
                installReady := Resolved \<rparr>)"
proof -
  let ?s5 = "prepareInstall C W False ip s0"
  have u: "updateConfig C W ?s5 =
            (None, ?s5\<lparr> trace := trace s0 @ [ConfigUpdate (pythonPathConfigKey C) (targetPath ip s0)],
                         notebookConfig := (notebookConfig s0)(pythonPathConfigKey C \<mapsto> targetPath ip s0) \<rparr>)"
    using stored by (simp add: updateConfig_def emit_def Let_def)
  have c: "\<not> (\<not> existsSync W (pythonExecutable (installer ?s5)) \<or> forceInstall (installer ?s5))"
    using present by simp
  show ?thesis
    unfolding proceedWithInstall_def Let_def using c u by (simp add: settle_def)
qed

text \<open>
  C5. Let a call of \<open>startInstallProcess\<close> with \<open>forceInstall = false\<close> pass the two
  guards, let the executable exist at the installation path of the call (the new path if
  one is given, the previous one otherwise), and let the store accept the write. Then the
  call resolves; its only effects are the message of the running check's \<open>close\<close>
  callback and the write of the installation path to the configuration store, so there is
  no background task, no download, no unpacking and no subprocess; and the store holds
  the installation path.
\<close>

theorem existing_runtime_skips_pipeline:
  assumes notRunning: "\<not> fst (isPythonRunning C W (targetPath ip s) s)"
    and idle: "\<not> installInProgress (installer s)"
    and present: "existsSync W (getPythonExePath C W (targetPath ip s))"
    and stored: "configUpdateError W = None"
  shows "let (outcome, s') = startInstallProcess C W False ip s
         in outcome = Resolved
            \<and> trace s' = trace s @ closeNotice C W (targetPath ip s)
                            @ [ConfigUpdate (pythonPathConfigKey C) (targetPath ip s)]
            \<and> notebookConfig s' = (notebookConfig s)(pythonPathConfigKey C \<mapsto> targetPath ip s)
            \<and> pythonInstallationPath (installer s') = targetPath ip s"
proof -
  let ?s0 = "s\<lparr> trace := trace s @ closeNotice C W (targetPath ip s) \<rparr>"
  have st: "startInstallProcess C W False ip s = proceedWithInstall C W False ip ?s0"
    using notRunning idle by (simp add: startInstallProcess_cases)
  have p: "existsSync W (getPythonExePath C W (targetPath ip ?s0))"
    using present by simp
  show ?thesis
    unfolding st skip_branch [OF p stored] by simp
qed



theorem existing_runtime_skips_pipeline_witness:
  "\<not> fst (isPythonRunning exampleConstants presentWorld
            (targetPath None (linuxInstaller presentWorld)) (linuxInstaller presentWorld))
   \<and> \<not> installInProgress (installer (linuxInstaller presentWorld))
   \<and> existsSync presentWorld
         (getPythonExePath exampleConstants presentWorld (targetPath None (linuxInstaller presentWorld)))
   \<and> configUpdateError presentWorld = None
   \<and> fst (startInstallProcess exampleConstants presentWorld False None (linuxInstaller presentWorld))
        = Resolved
   \<and> notebookConfig
         (snd (startInstallProcess exampleConstants presentWorld False None (linuxInstaller presentWorld)))
         ''pythonPath'' = Some ''/home/u/py''"
proof -
  let ?s = "linuxInstaller presentWorld"
  have h1: "\<not> fst (isPythonRunning exampleConstants presentWorld (targetPath None ?s) ?s)"
    by code_simp
  have h2: "\<not> installInProgress (installer ?s)" by code_simp
  have h3: "existsSync presentWorld (getPythonExePath exampleConstants presentWorld (targetPath None ?s))"
    by code_simp
  have h4: "configUpdateError presentWorld = None" by code_simp
  have t: "targetPath None ?s = ''/home/u/py''" by code_simp
  have k: "pythonPathConfigKey exampleConstants = ''pythonPath''" by code_simp
  have c: "fst (startInstallProcess exampleConstants presentWorld False None ?s) = Resolved
           \<and> notebookConfig (snd (startInstallProcess exampleConstants presentWorld False None ?s))
               = (notebookConfig ?s)(pythonPathConfigKey exampleConstants \<mapsto> targetPath None ?s)"
    using existing_runtime_skips_pipeline [OF h1 h2 h3 h4]
    by (simp add: Let_def split: prod.splits)
  have d: "notebookConfig (snd (startInstallProcess exampleConstants presentWorld False None ?s))
             ''pythonPath'' = Some ''/home/u/py''"
    using c by (simp add: t k)
  show ?thesis using h1 h2 h3 h4 c d by blast
qed

subsection \<open>The derived paths and the package steps\<close>

lemma updateConfig_result:
  "updateConfig C W s = (r, s') \<Longrightarrow> unguarded s' = unguarded s \<and> execs s' = execs s"
  using updateConfig_keeps [of C W s] by simp

lemma prepareInstall_execs [simp]: "execs (prepareInstall C W f ip s0) = execs s0"
  by (simp add: execs_def)

lemma proceedWithInstall_keeps:
  "unguarded (snd (proceedWithInstall C W f ip s0)) = unguarded (prepareInstall C W f ip s0)"
  "processPlatform W \<noteq> winPlatform C \<Longrightarrow> execs (snd (proceedWithInstall C W f ip s0)) = execs s0"
  by (auto simp: proceedWithInstall_def Let_def dest!: updateConfig_result
      split: prod.splits option.splits)

lemma startInstallProcess_execs:
  assumes "processPlatform W \<noteq> winPlatform C"
  shows "execs (snd (startInstallProcess C W f ip s)) = execs s"
proof -
  have n: "execs (s\<lparr> trace := trace s @ closeNotice C W (targetPath ip s) \<rparr>) = execs s"
    by (simp add: execs_def closeNotice_def split: option.splits)
  show ?thesis
    using assms n by (simp add: startInstallProcess_cases proceedWithInstall_keeps)
qed

lemma startInstallProcess_executable:
  assumes "\<not> fst (isPythonRunning C W (targetPath ip s) s)" and "\<not> installInProgress (installer s)"
  shows "pythonExecutable (installer (snd (startInstallProcess C W f ip s)))
           = getPythonExePath C W (targetPath ip s)"
proof -
  let ?s0 = "s\<lparr> trace := trace s @ closeNotice C W (targetPath ip s) \<rparr>"
  have "unguarded (snd (proceedWithInstall C W f ip ?s0)) = unguarded (prepareInstall C W f ip ?s0)"
    by (rule proceedWithInstall_keeps)
  then have "pythonExecutable (installer (snd (proceedWithInstall C W f ip ?s0)))
               = pythonExecutable (installer (prepareInstall C W f ip ?s0))"
    by (rule unguarded_fields)
  then show ?thesis
    using assms by (simp add: startInstallProcess_cases)
qed

lemma example_executable:
  "posixJoin [''/home/u/py'', ''0.0.1'', ''bin/python3''] = ''/home/u/py/0.0.1/bin/python3''"
  by code_simp

text \<open>
  C7. For every installation path, \<open>configurePackagePaths\<close> sets the executable path to
  the installation path joined with the bundle version and with \<open>python.exe\<close> on Windows
  or \<open>bin/python3\<close> elsewhere, and so it is after a call of \<open>startInstallProcess\<close> that
  passes the guards, for the installation path of the call. An installer constructed on
  Linux for \<open>/home/u/py\<close> with the bundle version \<open>0.0.1\<close> has the executable path
  \<open>/home/u/py/0.0.1/bin/python3\<close>. Off Windows the two package steps do nothing, and
  no call of \<open>startInstallProcess\<close> runs a subprocess.
\<close>

theorem executable_path_and_package_steps:
  "pythonExecutable (installer (configurePackagePaths C W s))
     = pathJoin W [pythonInstallationPath (installer s), pythonBundleVersion C,
                   if processPlatform W = winPlatform C then ''python.exe'' else ''bin/python3'']
   \<and> (\<not> fst (isPythonRunning C W (targetPath ip s) s) \<and> \<not> installInProgress (installer s) \<longrightarrow>
        pythonExecutable (installer (snd (startInstallProcess C W f ip s)))
          = pathJoin W [targetPath ip s, pythonBundleVersion C,
                        if processPlatform W = winPlatform C then ''python.exe'' else ''bin/python3''])
   \<and> pythonExecutable (installer (linuxInstaller (linuxWorld files events)))
       = ''/home/u/py/0.0.1/bin/python3''
   \<and> (processPlatform W \<noteq> winPlatform C \<longrightarrow>
        installJupyterProsePackage C W s = (None, s)
        \<and> installSparkMagic C W s = (None, s)
        \<and> execs (snd (startInstallProcess C W f ip s)) = execs s)"
proof (intro conjI impI)
  show "pythonExecutable (installer (configurePackagePaths C W s))
     = pathJoin W [pythonInstallationPath (installer s), pythonBundleVersion C,
                   if processPlatform W = winPlatform C then ''python.exe'' else ''bin/python3'']"
    by (simp add: getPythonExePath_def)
  show "pythonExecutable (installer (snd (startInstallProcess C W f ip s)))
          = pathJoin W [targetPath ip s, pythonBundleVersion C,
                        if processPlatform W = winPlatform C then ''python.exe'' else ''bin/python3'']"
    if "\<not> fst (isPythonRunning C W (targetPath ip s) s) \<and> \<not> installInProgress (installer s)"
    using that startInstallProcess_executable [of C W ip s f] by (simp add: getPythonExePath_def)
  show "pythonExecutable (installer (linuxInstaller (linuxWorld files events)))
       = ''/home/u/py/0.0.1/bin/python3''"
    by (simp add: linuxInstaller_def newJupyterServerInstallation_def getPythonExePath_def
        linuxWorld_def exampleConstants_def example_executable)
  show "installJupyterProsePackage C W s = (None, s)" if "processPlatform W \<noteq> winPlatform C"
    using that by (rule package_installs_skipped)
  show "installSparkMagic C W s = (None, s)" if "processPlatform W \<noteq> winPlatform C"
    using that by (rule package_installs_skipped)
  show "execs (snd (startInstallProcess C W f ip s)) = execs s" if "processPlatform W \<noteq> winPlatform C"
    using that by (rule startInstallProcess_execs)
qed

text \<open>
  A whole install on Linux: the guards pass, the executable path is the scenario's, and
  no subprocess runs.
\<close>

theorem executable_path_and_package_steps_witness:
  "\<not> fst (isPythonRunning exampleConstants downloadWorld
            (targetPath (Some ''/home/u/py'') (linuxInstaller downloadWorld)) (linuxInstaller downloadWorld))
   \<and> \<not> installInProgress (installer (linuxInstaller downloadWorld))
   \<and> processPlatform downloadWorld \<noteq> winPlatform exampleConstants
   \<and> pythonExecutable (installer (snd (startInstallProcess exampleConstants downloadWorld False
         (Some ''/home/u/py'') (linuxInstaller downloadWorld)))) = ''/home/u/py/0.0.1/bin/python3''
   \<and> execs (snd (startInstallProcess exampleConstants downloadWorld False
         (Some ''/home/u/py'') (linuxInstaller downloadWorld))) = []"
proof -
  let ?s = "linuxInstaller downloadWorld"
  let ?ip = "Some ''/home/u/py''"
  have h1: "\<not> fst (isPythonRunning exampleConstants downloadWorld (targetPath ?ip ?s) ?s)"
    by code_simp
  have h2: "\<not> installInProgress (installer ?s)" by code_simp
  have h3: "processPlatform downloadWorld \<noteq> winPlatform exampleConstants" by code_simp
  have j: "pathJoin downloadWorld [targetPath ?ip ?s, pythonBundleVersion exampleConstants,
             if processPlatform downloadWorld = winPlatform exampleConstants
             then ''python.exe'' else ''bin/python3''] = ''/home/u/py/0.0.1/bin/python3''"
    by code_simp
  have e: "execs ?s = []" by code_simp
  note th = executable_path_and_package_steps [of exampleConstants downloadWorld ?s ?ip False]
  have c1: "pythonExecutable (installer (snd (startInstallProcess exampleConstants downloadWorld False ?ip ?s)))
              = ''/home/u/py/0.0.1/bin/python3''"
    using th h1 h2 j by simp
  have c2: "execs (snd (startInstallProcess exampleConstants downloadWorld False ?ip ?s)) = []"
    using th h3 e by simp
  show ?thesis using h1 h2 h3 c1 c2 by blast
qed



subsection \<open>The derived PATH\<close>

text \<open>
  C2, as the code has it. \<open>configurePackagePaths\<close> sets the PATH of the runtime, on
  Windows, to the bin-equivalent path (the installation path joined with the bundle
  version), the delimiter, the \<open>Scripts\<close> subdirectory, the delimiter and the inherited
  PATH; elsewhere to the \<open>bin\<close> subdirectory, the delimiter and the inherited PATH. (An
  inherited PATH that is not set is printed as \<open>undefined\<close>.)
\<close>

theorem environment_path_order:
  "pythonEnvVarPath (installer (configurePackagePaths C W s)) =
     (let pythonSourcePath = pathJoin W [pythonInstallationPath (installer s), pythonBundleVersion C];
          inherited = jsString (processEnv s ''PATH'')
      in if processPlatform W = winPlatform C
         then pathJoin W [pythonSourcePath, []] @ pathDelimiter W
                @ pathJoin W [pythonSourcePath, ''Scripts''] @ pathDelimiter W @ inherited
         else pathJoin W [pythonSourcePath, ''bin''] @ pathDelimiter W @ inherited)"
  by (simp add: configurePackagePaths_def Let_def)

text \<open>
  On Windows, for the installation path \<open>C:\py\<close> and the inherited PATH \<open>C:\Windows\<close>,
  the PATH of the runtime is \<open>C:\py\0.0.1;C:\py\0.0.1\Scripts;C:\Windows\<close>: it does not
  begin with the \<open>Scripts\<close> subdirectory.
\<close>

theorem environment_path_scripts_first_counterexample:
  "processPlatform (windowsWorld [] []) = winPlatform exampleConstants
   \<and> pythonInstallationPath (installer (windowsInstaller (windowsWorld [] []))) = winPath [''C:'', ''py'']
   \<and> pythonEnvVarPath (installer (windowsInstaller (windowsWorld [] [])))
       = winPath [''C:'', ''py'', ''0.0.1''] @ '';'' @ winPath [''C:'', ''py'', ''0.0.1'', ''Scripts'']
           @ '';'' @ winPath [''C:'', ''Windows'']
   \<and> pythonEnvVarPath (installer (windowsInstaller (windowsWorld [] [])))
       \<noteq> winPath [''C:'', ''py'', ''0.0.1'', ''Scripts''] @ '';'' @ winPath [''C:'', ''py'', ''0.0.1'']
           @ '';'' @ winPath [''C:'', ''Windows'']
   \<and> \<not> prefix (winPath [''C:'', ''py'', ''0.0.1'', ''Scripts''])
         (pythonEnvVarPath (installer (windowsInstaller (windowsWorld [] []))))"
  by code_simp


subsection \<open>The in-progress guard\<close>

lemma pipeline_branch_releases_guard:
  assumes "\<not> fst (isPythonRunning C W (targetPath ip s) s)" and "\<not> installInProgress (installer s)"
    and "\<not> existsSync W (getPythonExePath C W (targetPath ip s)) \<or> f"
    and "fst (startInstallProcess C W f ip s) \<noteq> Pending"
  shows "\<not> installInProgress (installer (snd (startInstallProcess C W f ip s)))"
proof -
  let ?s0 = "s\<lparr> trace := trace s @ closeNotice C W (targetPath ip s) \<rparr>"
  let ?s5 = "prepareInstall C W f ip ?s0"
  let ?s6 = "installDependencies C W (emit (StartBackgroundOperation msgTaskName) ?s5)"
  have st: "startInstallProcess C W f ip s = (installReady ?s6, ?s6)"
    using assms(1-3) by (simp add: startInstallProcess_cases proceedWithInstall_def Let_def)
  have "guardReleased (emit (StartBackgroundOperation msgTaskName) ?s5)"
    by (simp add: guardReleased_def emit_def)
  then have "guardReleased ?s6" by simp
  moreover have "installReady ?s6 \<noteq> Pending" using assms(4) st by simp
  ultimately have "\<not> installInProgress (installer ?s6)" by (simp add: guardReleased_def)
  then show ?thesis using st by simp
qed

text \<open>
  C1. The executable exists and the install is not forced: the call passes both guards
  and resolves, and the in-progress guard is still up when it has resolved. The next call
  on the same installer, forced or not, is rejected with the message of
  \<open>msgPendingInstallError\<close>. (On the branch that runs the pipeline the guard is down
  once the promise is settled: \<open>pipeline_branch_releases_guard\<close>.)
\<close>

theorem skip_branch_leaves_guard_up:
  "(let (outcome, s') = startInstallProcess exampleConstants presentWorld False None (linuxInstaller presentWorld)
    in outcome = Resolved
       \<and> installInProgress (installer s')
       \<and> fst (startInstallProcess exampleConstants presentWorld False None s') = Rejected msgPendingInstallError
       \<and> fst (startInstallProcess exampleConstants presentWorld True None s') = Rejected msgPendingInstallError)"
  by code_simp


subsection \<open>The download and the unpacking\<close>

text \<open>
  What does hold: while the promise of \<open>installPythonPackage\<close> is pending, a response
  with a status other than 200 rejects it with the status message, and the \<open>catch\<close>
  handler rejects \<open>installReady\<close> and lowers the guard; an error of the removal of a
  stale copy, or of \<open>decompress\<close>, rejects \<open>installReady\<close> in the same way.
\<close>

lemma non200_response_rejects:
  assumes "pkgPromise s = Pending" and "\<not> resumed s" and "installReady s = Pending"
    and "statusCode \<noteq> 200"
  shows "pkgPromise (onEvent C W (Response statusCode statusMessage) s) = Rejected statusMessage"
    and "installReady (onEvent C W (Response statusCode statusMessage) s)
           = Rejected (msgDependenciesInstallationFailed (getErrorMessage W (Some statusMessage)))"
    and "\<not> installInProgress (installer (onEvent C W (Response statusCode statusMessage) s))"
  using assms
  by (simp_all add: resume_def reject_def settle_def emit_def catchHandler_def Let_def
      setInstallInProgress_def)

lemma unpack_errors_reject:
  assumes "pkgPromise s = Pending" and "\<not> resumed s" and "installReady s = Pending"
  shows "existsSync W (pathJoin W [pythonInstallationPath (installer s), pythonBundleVersion C]) \<Longrightarrow>
         removeSyncError W = Some err \<Longrightarrow>
         installReady (onClose C W s)
           = Rejected (msgDependenciesInstallationFailed (getErrorMessage W (Some err)))"
    and "(existsSync W (pathJoin W [pythonInstallationPath (installer s), pythonBundleVersion C]) \<Longrightarrow>
            removeSyncError W = None) \<Longrightarrow>
         decompressError W = Some err \<Longrightarrow>
         installReady (onClose C W s)
           = Rejected (msgDependenciesInstallationFailed (getErrorMessage W (Some err)))"
  using assms
  by (auto simp: onClose_def resume_def reject_def resolve_def settle_def emit_def catchHandler_def Let_def
      setInstallInProgress_def split: option.splits)


text \<open>
  C3. The server answers 404: the promise of \<open>installPythonPackage\<close> is rejected with the
  status message and the task is set to \<open>Failed\<close>; the body is written all the same,
  and when the file is closed \<open>decompress\<close> is called on it. Its failure sets the status
  of the task again: the last status is \<open>InProgress\<close>, with the message of
  \<open>msgPythonUnpackError\<close>.
\<close>

theorem non200_response_still_unpacks:
  "(let (outcome, s') = startInstallProcess exampleConstants notFoundWorld False None (linuxInstaller notFoundWorld)
    in outcome = Rejected ''Installing Notebook dependencies failed with error: Not Found''
       \<and> trace s' =
           [StartBackgroundOperation msgTaskName,
            ShowInformationMessage msgInstallPkgStart,
            UpdateStatus InProgress msgInstallPkgProgress,
            UpdateStatus InProgress
              ''Downloading local python for platform: linux to https://go.microsoft.com/fwlink/?linkid=2065975'',
            Mkdirs ''/home/u/py'',
            RequestGet ''https://go.microsoft.com/fwlink/?linkid=2065975''
              ''/home/u/py/python-3.6.6-linux-0.0.1.tar.gz'',
            UpdateStatus InProgress msgPythonDownloadError,
            UpdateStatus Failed ''Installing Notebook dependencies failed with error: Not Found'',
            ShowErrorMessage ''Installing Notebook dependencies failed with error: Not Found'',
            Decompress ''/home/u/py/python-3.6.6-linux-0.0.1.tar.gz'' ''/home/u/py'',
            UpdateStatus InProgress msgPythonUnpackError]
       \<and> last (statusUpdates (trace s')) = (InProgress, msgPythonUnpackError))"
  by code_simp

text \<open>
  C4. The download and the decompression succeed and the archive cannot be deleted:
  \<open>unlink\<close> is called, the promise is resolved before the callback of \<open>unlink\<close> runs,
  and the error of \<open>unlink\<close> rejects nothing. The call of \<open>startInstallProcess\<close>
  resolves, the store is written, and the task is never set to \<open>Failed\<close>.
\<close>

theorem unlink_failure_does_not_fail_install:
  "(let (outcome, s') = startInstallProcess exampleConstants unlinkFailsWorld False None
                          (linuxInstaller unlinkFailsWorld)
    in outcome = Resolved
       \<and> trace s' =
           [StartBackgroundOperation msgTaskName,
            ShowInformationMessage msgInstallPkgStart,
            UpdateStatus InProgress msgInstallPkgProgress,
            UpdateStatus InProgress
              ''Downloading local python for platform: linux to https://go.microsoft.com/fwlink/?linkid=2065975'',
            Mkdirs ''/home/u/py'',
            RequestGet ''https://go.microsoft.com/fwlink/?linkid=2065975''
              ''/home/u/py/python-3.6.6-linux-0.0.1.tar.gz'',
            Decompress ''/home/u/py/python-3.6.6-linux-0.0.1.tar.gz'' ''/home/u/py'',
            Unlink ''/home/u/py/python-3.6.6-linux-0.0.1.tar.gz'',
            UpdateStatus InProgress msgPythonDownloadComplete,
            UpdateStatus Succeeded msgInstallPkgFinish,
            ShowInformationMessage msgInstallPkgFinish,
            ConfigUpdate ''pythonPath'' ''/home/u/py'',
            UpdateStatus InProgress msgPythonUnpackError]
       \<and> notebookConfig s' ''pythonPath'' = Some ''/home/u/py''
       \<and> Failed \<notin> fst ` set (statusUpdates (trace s')))"
  by code_simp


subsection \<open>Whether Python is installed\<close>

text \<open>
  C8, as the code has it. \<open>isPythonInstalled\<close> is a function of the constants, the host
  and the \<open>ApiWrapper\<close> alone: the installer's state is not among its arguments. It is
  true if and only if the notebook section of the store records an installation path
  that is not empty, that path itself exists on the file system, and a file exists at the
  path that \<open>path.join\<close> makes of the recorded path, the bundle version and
  \<open>python.exe\<close> on Windows or \<open>bin/python3\<close> elsewhere.
\<close>

theorem isPythonInstalled_exact_condition:
  "isPythonInstalled C W apiWrapper \<longleftrightarrow>
     (\<exists>api sect p.
        apiWrapper = Some api
        \<and> getConfiguration api (notebookConfigKey C) = Some sect
        \<and> sect (pythonPathConfigKey C) = Some p
        \<and> p \<noteq> []
        \<and> existsSync W p
        \<and> existsSync W
             (pathJoin W [p, pythonBundleVersion C,
                          if processPlatform W = winPlatform C then ''python.exe'' else ''bin/python3'']))"
  by (auto simp: isPythonInstalled_def getPythonPathSetting_def getPythonExePath_def split: option.splits)

text \<open>
  The store records \<open>/home/u/py\<close>, where the runtime is unpacked: Python is installed.
  It is not when the store records a directory that does not exist, an empty path, or
  when there is no \<open>ApiWrapper\<close>.
\<close>

theorem isPythonInstalled_exact_condition_witness:
  "isPythonInstalled exampleConstants unpackedWorld (Some (storeWith ''/home/u/py''))
   \<and> \<not> isPythonInstalled exampleConstants unpackedWorld (Some (storeWith ''/home/u/other''))
   \<and> \<not> isPythonInstalled exampleConstants unpackedWorld (Some (storeWith []))
   \<and> \<not> isPythonInstalled exampleConstants unpackedWorld None"
proof -
  have k: "notebookConfigKey exampleConstants = ''notebook''"
      "pythonPathConfigKey exampleConstants = ''pythonPath''"
    by (simp_all add: exampleConstants_def)
  have d: "existsSync unpackedWorld ''/home/u/py''" by code_simp
  have x: "existsSync unpackedWorld
             (pathJoin unpackedWorld [''/home/u/py'', pythonBundleVersion exampleConstants,
                if processPlatform unpackedWorld = winPlatform exampleConstants
                then ''python.exe'' else ''bin/python3''])"
    by code_simp
  have g: "getConfiguration (storeWith ''/home/u/py'') (notebookConfigKey exampleConstants)
             = Some [''pythonPath'' \<mapsto> ''/home/u/py'']"
    by (simp add: storeWith_def k)
  have v: "[''pythonPath'' \<mapsto> ''/home/u/py''] (pythonPathConfigKey exampleConstants) = Some ''/home/u/py''"
    by (simp add: k)
  have ne: "''/home/u/py'' \<noteq> []" by simp
  have a: "isPythonInstalled exampleConstants unpackedWorld (Some (storeWith ''/home/u/py''))"
    unfolding isPythonInstalled_exact_condition using g v ne d x by blast
  have nd: "\<not> existsSync unpackedWorld ''/home/u/other''" by code_simp
  have b: "\<not> isPythonInstalled exampleConstants unpackedWorld (Some (storeWith ''/home/u/other''))"
    unfolding isPythonInstalled_exact_condition using nd by (auto simp: storeWith_def k split: if_splits)
  have c: "\<not> isPythonInstalled exampleConstants unpackedWorld (Some (storeWith []))"
    unfolding isPythonInstalled_exact_condition by (auto simp: storeWith_def k split: if_splits)
  have n: "\<not> isPythonInstalled exampleConstants unpackedWorld None"
    unfolding isPythonInstalled_exact_condition by simp
  from a b c n show ?thesis by (intro conjI)
qed

text \<open>
  The store records \<open>/home/u/nowhere/../py\<close>, and \<open>/home/u/nowhere\<close> does not exist.
  The sub-path under the recorded path is joined to \<open>/home/u/py/0.0.1/bin/python3\<close>,
  where the executable exists; the recorded path itself does not exist, and
  \<open>isPythonInstalled\<close> is false.
\<close>

theorem isPythonInstalled_missing_directory_counterexample:
  "(case getConfiguration (storeWith ''/home/u/nowhere/../py'') (notebookConfigKey exampleConstants) of
      None \<Rightarrow> None
    | Some sect \<Rightarrow> sect (pythonPathConfigKey exampleConstants)) = Some ''/home/u/nowhere/../py''
   \<and> pathJoin unpackedWorld
        [''/home/u/nowhere/../py'', pythonBundleVersion exampleConstants,
         if processPlatform unpackedWorld = winPlatform exampleConstants
         then ''python.exe'' else ''bin/python3''] = ''/home/u/py/0.0.1/bin/python3''
   \<and> existsSync unpackedWorld ''/home/u/py/0.0.1/bin/python3''
   \<and> \<not> existsSync unpackedWorld ''/home/u/nowhere/../py''
   \<and> \<not> isPythonInstalled exampleConstants unpackedWorld (Some (storeWith ''/home/u/nowhere/../py''))"
  by code_simp


end
